theory Spec2Isabelle
  imports Complex_Main
begin

section \<open>Values, errors and tensors\<close>

text \<open>
  The notebooks are Python scripts over an external tensor framework. Python integers are
  \<open>int\<close>; a raised exception is the \<open>Inl\<close> branch of a sum. Floating-point values that
  the notebooks compare against infinity are \<open>pyfloat\<close>; finite floating-point results
  are real numbers (rounding is not modelled). \<open>LibraryError\<close> stands for any exception
  the framework raises from inside one of its modules.

  Every function of the notebooks is defined over the calls it makes into the framework:
  the calls are the fields of a record, each may return a value or raise, and the function
  is the source's sequence of calls. What the calls compute on tensors of token ids and on
  masks is given below on lists (a one-dimensional tensor is a list, a two-dimensional
  tensor is a list of rows) and collected into instances of the records further down.
\<close>

datatype error =
  ZeroDivisionError | RuntimeError | ValueError | AttributeError | LibraryError nat

datatype pyfloat = Fin real | PosInf | NegInf

subsection \<open>The tensor operations the notebooks call, on lists\<close>

text \<open>\<open>t.narrow(0, start, len)\<close>: rows \<open>start .. start + len - 1\<close>; the framework raises
  when the range does not fit.\<close>

definition narrow :: "'a list \<Rightarrow> int \<Rightarrow> int \<Rightarrow> error + 'a list" where
  "narrow xs start len =
     (if start < 0 \<or> len < 0 \<or> int (length xs) < start + len then Inl RuntimeError
      else Inr (take (nat len) (drop (nat start) xs)))"

text \<open>\<open>t.view(r, -1)\<close> of a tensor with \<open>length xs\<close> elements: \<open>r\<close> rows in row-major
  order. The framework raises when \<open>r\<close> is not positive and when \<open>r\<close> does not divide the
  number of elements; of an empty tensor it makes \<open>r\<close> empty rows.\<close>

definition view :: "'a list \<Rightarrow> int \<Rightarrow> error + 'a list list" where
  "view xs r =
     (if r \<le> 0 \<or> int (length xs) mod r \<noteq> 0 then Inl RuntimeError
      else Inr (map (\<lambda>k. take (length xs div nat r) (drop (k * (length xs div nat r)) xs))
                  [0..<nat r]))"

text \<open>\<open>m.t()\<close> and \<open>m.transpose(0, 1)\<close> of a rectangular matrix.\<close>

definition t :: "'a list list \<Rightarrow> 'a list list" where
  "t m = (case m of [] \<Rightarrow> [] | r # _ \<Rightarrow> map (\<lambda>j. map (\<lambda>row. row ! j) m) [0..<length r])"

text \<open>\<open>torch.ones(r, c)\<close>; a negative dimension raises.\<close>

definition ones :: "int \<Rightarrow> int \<Rightarrow> error + real list list" where
  "ones r c = (if r < 0 \<or> c < 0 then Inl RuntimeError
               else Inr (replicate (nat r) (replicate (nat c) 1)))"

text \<open>\<open>torch.triu(m)\<close>: the entries on and above the diagonal, zero below it.\<close>

definition triu :: "real list list \<Rightarrow> real list list" where
  "triu m = map (\<lambda>i. map (\<lambda>j. if i \<le> j then m ! i ! j else 0) [0..<length (m ! i)])
                [0..<length m]"

text \<open>\<open>m == c\<close>, elementwise.\<close>

definition eq_scalar :: "'a list list \<Rightarrow> 'a \<Rightarrow> bool list list" where
  "eq_scalar m c = map (map (\<lambda>v. v = c)) m"

text \<open>\<open>m == 0\<close> and \<open>m == 1\<close> on a boolean tensor: \<open>False\<close> counts as 0, \<open>True\<close> as 1.\<close>

definition eq_bool :: "bool list list \<Rightarrow> int \<Rightarrow> bool list list" where
  "eq_bool m c = map (map (\<lambda>b. (if b then 1 else 0) = c)) m"

text \<open>\<open>m.float()\<close> of a boolean tensor.\<close>

definition float_of_bool :: "bool list list \<Rightarrow> pyfloat list list" where
  "float_of_bool m = map (map (\<lambda>b. if b then Fin 1 else Fin 0)) m"

text \<open>\<open>m.masked_fill(c, v)\<close>: \<open>v\<close> where \<open>c\<close> holds, the entry of \<open>m\<close> elsewhere.\<close>

definition masked_fill :: "'a list list \<Rightarrow> bool list list \<Rightarrow> 'a \<Rightarrow> 'a list list" where
  "masked_fill m c v = map2 (\<lambda>row crow. map2 (\<lambda>x b. if b then v else x) row crow) m c"

text \<open>\<open>math.sqrt\<close> raises on a negative argument.\<close>

definition math_sqrt :: "int \<Rightarrow> error + real" where
  "math_sqrt k = (if k < 0 then Inl ValueError else Inr (sqrt (real_of_int k)))"

subsection \<open>Slices, ranges and comparisons of Python\<close>

text \<open>Python's \<open>xs[a:b]\<close>: a negative bound counts from the end, and both bounds are
  clipped to the length.\<close>

definition py_slice :: "'a list \<Rightarrow> int \<Rightarrow> int \<Rightarrow> 'a list" where
  "py_slice xs a b =
     (let n = int (length xs);
          a1 = max 0 (min n (if a < 0 then a + n else a));
          b1 = max 0 (min n (if b < 0 then b + n else b))
      in take (nat (b1 - a1)) (drop (nat a1) xs))"

text \<open>\<open>range(0, stop, step)\<close> for a positive \<open>step\<close>.\<close>

definition py_range :: "int \<Rightarrow> int \<Rightarrow> int list" where
  "py_range stop step = map (\<lambda>k. int k * step) [0..<nat ((stop + step - 1) div step)]"

text \<open>\<open>a < b\<close> on floats, where \<open>b\<close> may be \<open>float("inf")\<close>.\<close>

fun pyfloat_less :: "pyfloat \<Rightarrow> pyfloat \<Rightarrow> bool" where
  "pyfloat_less (Fin a) (Fin b) = (a < b)"
| "pyfloat_less (Fin a) PosInf = True"
| "pyfloat_less NegInf (Fin b) = True"
| "pyfloat_less NegInf PosInf = True"
| "pyfloat_less _ _ = False"

section \<open>The transformer notebook\<close>

subsection \<open>\<open>batchify\<close>\<close>

text \<open>
  \<^verbatim>\<open>
  def batchify(data, bsz):
      data = TEXT.numericalize([data.examples[0].text])
      # Divide the dataset into bsz parts.
      nbatch = data.size(0) // bsz
      # Trim off any extra elements that wouldn't cleanly fit (remainders).
      data = data.narrow(0, 0, nbatch * bsz)
      # Evenly divide the data across the bsz batches.
      data = data.view(bsz, -1).t().contiguous()
      return data.to(device)
  \<close>
  \<open>'v\<close> is the type of the numericalized text (one token id per row), \<open>'w\<close> of the
  batchified tensor. \<open>numericalize\<close> (the vocabulary lookup of the text field) and
  \<open>to_device\<close> are calls into the framework too. Python's \<open>//\<close> on integers is floor
  division, which is \<open>div\<close> on \<open>int\<close>, and raises on a zero divisor.
\<close>

record ('v, 'w) tensor_lib =
  tensor_size0 :: "'v \<Rightarrow> error + int"
  tensor_narrow0 :: "'v \<Rightarrow> int \<Rightarrow> int \<Rightarrow> error + 'v"
  tensor_view2 :: "'v \<Rightarrow> int \<Rightarrow> error + 'w"
  tensor_t :: "'w \<Rightarrow> error + 'w"
  tensor_contiguous :: "'w \<Rightarrow> error + 'w"

definition batchify ::
  "('v, 'w) tensor_lib \<Rightarrow> ('d \<Rightarrow> error + 'v) \<Rightarrow> ('w \<Rightarrow> error + 'w) \<Rightarrow>
   'd \<Rightarrow> int \<Rightarrow> error + 'w" where
  "batchify B numericalize to_device data bsz =
     (case numericalize data of Inl e \<Rightarrow> Inl e | Inr data1 \<Rightarrow>
      (case tensor_size0 B data1 of Inl e \<Rightarrow> Inl e | Inr n \<Rightarrow>
        if bsz = 0 then Inl ZeroDivisionError
        else let nbatch = n div bsz in
          (case tensor_narrow0 B data1 0 (nbatch * bsz) of Inl e \<Rightarrow> Inl e | Inr data2 \<Rightarrow>
           (case tensor_view2 B data2 bsz of Inl e \<Rightarrow> Inl e | Inr data3 \<Rightarrow>
            (case tensor_t B data3 of Inl e \<Rightarrow> Inl e | Inr data4 \<Rightarrow>
             (case tensor_contiguous B data4 of Inl e \<Rightarrow> Inl e | Inr data5 \<Rightarrow>
                to_device data5))))))"

subsection \<open>\<open>TransformerModel._generate_square_subsequent_mask\<close>\<close>

text \<open>
  \<^verbatim>\<open>
  def _generate_square_subsequent_mask(self, sz):
      mask = (torch.triu(torch.ones(sz, sz)) == 1).transpose(0, 1)
      mask = mask.float().masked_fill(mask == 0, float('-inf')).masked_fill(mask == 1, float(0.0))
      return mask
  \<close>
  \<open>'a\<close> is the type of the tensor of ones, \<open>'b\<close> of a boolean tensor, \<open>'k\<close> of the mask.
  In the second line the receiver \<open>mask.float()\<close> is evaluated before the argument
  \<open>mask == 0\<close>, and the first \<open>masked_fill\<close> before \<open>mask == 1\<close>.
\<close>

record ('a, 'b, 'k) mask_lib =
  mask_ones :: "int \<Rightarrow> int \<Rightarrow> error + 'a"
  mask_triu :: "'a \<Rightarrow> error + 'a"
  mask_eq :: "'a \<Rightarrow> real \<Rightarrow> error + 'b"
  mask_transpose :: "'b \<Rightarrow> error + 'b"
  mask_float :: "'b \<Rightarrow> error + 'k"
  mask_eq_bool :: "'b \<Rightarrow> int \<Rightarrow> error + 'b"
  mask_masked_fill :: "'k \<Rightarrow> 'b \<Rightarrow> pyfloat \<Rightarrow> error + 'k"

definition generate_square_subsequent_mask :: "('a, 'b, 'k) mask_lib \<Rightarrow> int \<Rightarrow> error + 'k" where
  "generate_square_subsequent_mask M sz =
     (case mask_ones M sz sz of Inl e \<Rightarrow> Inl e | Inr o1 \<Rightarrow>
      (case mask_triu M o1 of Inl e \<Rightarrow> Inl e | Inr u1 \<Rightarrow>
       (case mask_eq M u1 1 of Inl e \<Rightarrow> Inl e | Inr b1 \<Rightarrow>
        (case mask_transpose M b1 of Inl e \<Rightarrow> Inl e | Inr m0 \<Rightarrow>
         (case mask_float M m0 of Inl e \<Rightarrow> Inl e | Inr f0 \<Rightarrow>
          (case mask_eq_bool M m0 0 of Inl e \<Rightarrow> Inl e | Inr c0 \<Rightarrow>
           (case mask_masked_fill M f0 c0 NegInf of Inl e \<Rightarrow> Inl e | Inr f1 \<Rightarrow>
            (case mask_eq_bool M m0 1 of Inl e \<Rightarrow> Inl e | Inr c1 \<Rightarrow>
               mask_masked_fill M f1 c1 (Fin 0)))))))))"

subsection \<open>\<open>PositionalEncoding.forward\<close>\<close>

text \<open>
  The calls of the two \<open>forward\<close> methods on tensors. \<open>'s\<close> is the type of a batch of
  token ids, \<open>'t\<close> of an activation, \<open>'k\<close> of an attention mask. \<open>slice0 p n\<close> is
  \<open>p[:n, :]\<close>, \<open>tadd\<close> is \<open>+\<close> and \<open>scale\<close> is \<open>*\<close> by a Python float, \<open>mask_to\<close> is
  \<open>.to(device)\<close>, and \<open>py_math_sqrt\<close> is \<open>math.sqrt\<close>.
\<close>

record ('s, 't, 'k) tensor_ops =
  src_size0 :: "'s \<Rightarrow> error + int"
  mask_size0 :: "'k \<Rightarrow> error + int"
  mask_to :: "'k \<Rightarrow> error + 'k"
  size0 :: "'t \<Rightarrow> error + int"
  slice0 :: "'t \<Rightarrow> int \<Rightarrow> error + 't"
  tadd :: "'t \<Rightarrow> 't \<Rightarrow> error + 't"
  scale :: "'t \<Rightarrow> real \<Rightarrow> error + 't"
  py_math_sqrt :: "int \<Rightarrow> error + real"

text \<open>
  \<^verbatim>\<open>
  class PositionalEncoding(nn.Module):
      def __init__(self, d_model, dropout=0.1, max_len=5000):
          self.dropout = nn.Dropout(p=dropout)
          ...
          self.register_buffer('pe', pe)

      def forward(self, x):
          x = x + self.pe[:x.size(0), :]
          return self.dropout(x)
  \<close>
\<close>

record 't positional_encoding =
  dropout :: "'t \<Rightarrow> error + 't"
  pe :: "'t"

definition positional_encoding_forward ::
  "('s, 't, 'k) tensor_ops \<Rightarrow> 't positional_encoding \<Rightarrow> 't \<Rightarrow> error + 't" where
  "positional_encoding_forward T self x0 =
     (case size0 T x0 of Inl e \<Rightarrow> Inl e | Inr n \<Rightarrow>
      (case slice0 T (pe self) n of Inl e \<Rightarrow> Inl e | Inr p \<Rightarrow>
       (case tadd T x0 p of Inl e \<Rightarrow> Inl e | Inr x1 \<Rightarrow>
          dropout self x1)))"

subsection \<open>\<open>TransformerModel.forward\<close>\<close>

text \<open>
  \<^verbatim>\<open>
  class TransformerModel(nn.Module):
      def __init__(self, ntoken, ninp, nhead, nhid, nlayers, dropout=0.5):
          super(TransformerModel, self).__init__()
          from torch.nn import TransformerEncoder, TransformerEncoderLayer
          self.model_type = 'Transformer'
          self.src_mask = None
          self.pos_encoder = PositionalEncoding(ninp, dropout)
          encoder_layers = TransformerEncoderLayer(ninp, nhead, nhid, dropout)
          self.transformer_encoder = TransformerEncoder(encoder_layers, nlayers)
          self.encoder = nn.Embedding(ntoken, ninp)
          self.ninp = ninp
          self.decoder = nn.Linear(ninp, ntoken)

          self.init_weights()

      def forward(self, src):
          if self.src_mask is None or self.src_mask.size(0) != src.size(0):
              device = src.device
              mask = self._generate_square_subsequent_mask(src.size(0)).to(device)
              self.src_mask = mask

          src = self.encoder(src) * math.sqrt(self.ninp)
          src = self.pos_encoder(src)
          output = self.transformer_encoder(src, self.src_mask)
          output = self.decoder(output)
          return output
  \<close>
  The fields of the object are the fields of the record; the framework's modules are the
  functions they compute. \<open>forward\<close> returns its result (or the exception) together
  with the object as the call leaves it.
\<close>

record ('s, 't, 'o, 'k) transformer_model =
  model_type :: string
  src_mask :: "'k option"
  pos_encoder :: "'t positional_encoding"
  transformer_encoder :: "'t \<Rightarrow> 'k option \<Rightarrow> error + 't"
  encoder :: "'s \<Rightarrow> error + 't"
  ninp :: int
  decoder :: "'t \<Rightarrow> error + 'o"

text \<open>The guarded assignment to \<open>self.src_mask\<close> at the head of \<open>forward\<close>. \<open>or\<close> is
  short-circuit: the two sizes are not asked for in the test when the field is \<open>None\<close>;
  otherwise the size of the mask is asked for before the size of \<open>src\<close>.\<close>

definition new_src_mask ::
  "('s, 't, 'k) tensor_ops \<Rightarrow> ('a, 'b, 'k) mask_lib \<Rightarrow> ('s, 't, 'o, 'k) transformer_model \<Rightarrow> 's \<Rightarrow>
   (error + unit) \<times> ('s, 't, 'o, 'k) transformer_model" where
  "new_src_mask T M self src =
     (case src_size0 T src of Inl e \<Rightarrow> (Inl e, self) | Inr n \<Rightarrow>
      (case generate_square_subsequent_mask M n of Inl e \<Rightarrow> (Inl e, self) | Inr m0 \<Rightarrow>
       (case mask_to T m0 of Inl e \<Rightarrow> (Inl e, self) | Inr m1 \<Rightarrow>
          (Inr (), self\<lparr>src_mask := Some m1\<rparr>))))"

definition check_src_mask ::
  "('s, 't, 'k) tensor_ops \<Rightarrow> ('a, 'b, 'k) mask_lib \<Rightarrow> ('s, 't, 'o, 'k) transformer_model \<Rightarrow> 's \<Rightarrow>
   (error + unit) \<times> ('s, 't, 'o, 'k) transformer_model" where
  "check_src_mask T M self src =
     (case src_mask self of
        None \<Rightarrow> new_src_mask T M self src
      | Some old \<Rightarrow>
          (case mask_size0 T old of Inl e \<Rightarrow> (Inl e, self) | Inr k \<Rightarrow>
           (case src_size0 T src of Inl e \<Rightarrow> (Inl e, self) | Inr n \<Rightarrow>
              if k \<noteq> n then new_src_mask T M self src else (Inr (), self))))"

definition forward ::
  "('s, 't, 'k) tensor_ops \<Rightarrow> ('a, 'b, 'k) mask_lib \<Rightarrow> ('s, 't, 'o, 'k) transformer_model \<Rightarrow> 's \<Rightarrow>
   (error + 'o) \<times> ('s, 't, 'o, 'k) transformer_model" where
  "forward T M self src =
     (case check_src_mask T M self src of
        (Inl e, self1) \<Rightarrow> (Inl e, self1)
      | (Inr _, self1) \<Rightarrow>
          ((case encoder self1 src of Inl e \<Rightarrow> Inl e | Inr src1 \<Rightarrow>
            (case py_math_sqrt T (ninp self1) of Inl e \<Rightarrow> Inl e | Inr r \<Rightarrow>
             (case scale T src1 r of Inl e \<Rightarrow> Inl e | Inr src2 \<Rightarrow>
              (case positional_encoding_forward T (pos_encoder self1) src2 of
                 Inl e \<Rightarrow> Inl e | Inr src3 \<Rightarrow>
               (case transformer_encoder self1 src3 (src_mask self1) of
                  Inl e \<Rightarrow> Inl e | Inr output \<Rightarrow>
                    decoder self1 output))))),
           self1))"

subsection \<open>The constructors\<close>

text \<open>
  The calls of the two \<open>__init__\<close> methods and of \<open>init_weights\<close> into the framework:
  \<open>nn.Module.__init__\<close> (\<open>module_init\<close>), the constructors of its modules, the in-place
  initialisers of their weights, and the tensor operations that build the table of
  positional encodings. Each may raise. \<open>'y\<close> is the type of an encoder layer.
\<close>

record ('s, 't, 'o, 'y, 'k) nn_lib =
  module_init :: "error + unit"
  import_encoder :: "error + unit"
  nn_Dropout :: "real \<Rightarrow> error + ('t \<Rightarrow> error + 't)"
  nn_TransformerEncoderLayer :: "int \<Rightarrow> int \<Rightarrow> int \<Rightarrow> real \<Rightarrow> error + 'y"
  nn_TransformerEncoder :: "'y \<Rightarrow> int \<Rightarrow> error + ('t \<Rightarrow> 'k option \<Rightarrow> error + 't)"
  nn_Embedding :: "int \<Rightarrow> int \<Rightarrow> error + ('s \<Rightarrow> error + 't)"
  nn_Linear :: "int \<Rightarrow> int \<Rightarrow> error + ('t \<Rightarrow> error + 'o)"
  embedding_uniform :: "('s \<Rightarrow> error + 't) \<Rightarrow> real \<Rightarrow> real \<Rightarrow> error + ('s \<Rightarrow> error + 't)"
  linear_bias_zero :: "('t \<Rightarrow> error + 'o) \<Rightarrow> error + ('t \<Rightarrow> error + 'o)"
  linear_uniform :: "('t \<Rightarrow> error + 'o) \<Rightarrow> real \<Rightarrow> real \<Rightarrow> error + ('t \<Rightarrow> error + 'o)"
  zeros :: "int \<Rightarrow> int \<Rightarrow> error + 't"
  arange_float :: "int \<Rightarrow> int \<Rightarrow> error + 't"
  arange_step :: "int \<Rightarrow> int \<Rightarrow> int \<Rightarrow> error + 't"
  unsqueeze :: "'t \<Rightarrow> int \<Rightarrow> error + 't"
  to_float :: "'t \<Rightarrow> error + 't"
  mul_float :: "'t \<Rightarrow> real \<Rightarrow> error + 't"
  texp :: "'t \<Rightarrow> error + 't"
  tsin :: "'t \<Rightarrow> error + 't"
  tcos :: "'t \<Rightarrow> error + 't"
  tmul :: "'t \<Rightarrow> 't \<Rightarrow> error + 't"
  set_columns :: "'t \<Rightarrow> int \<Rightarrow> 't \<Rightarrow> error + 't"
  transpose01 :: "'t \<Rightarrow> error + 't"
  register_buffer :: "'t \<Rightarrow> error + 't"

text \<open>
  \<^verbatim>\<open>
  def __init__(self, d_model, dropout=0.1, max_len=5000):
      super(PositionalEncoding, self).__init__()
      self.dropout = nn.Dropout(p=dropout)

      pe = torch.zeros(max_len, d_model)
      position = torch.arange(0, max_len, dtype=torch.float).unsqueeze(1)
      div_term = torch.exp(torch.arange(0, d_model, 2).float() * (-math.log(10000.0) / d_model))
      pe[:, 0::2] = torch.sin(position * div_term)
      pe[:, 1::2] = torch.cos(position * div_term)
      pe = pe.unsqueeze(0).transpose(0, 1)
      self.register_buffer('pe', pe)
  \<close>
  \<open>set_columns p k v\<close> is the assignment \<open>p[:, k::2] = v\<close>. The division by \<open>d_model\<close> is
  Python's, and raises when \<open>d_model\<close> is 0; \<open>math.log(10000.0)\<close> is the number
  \<open>ln 10000\<close>. \<open>position * div_term\<close> is computed twice, with the same result.
\<close>

definition positional_encoding_init ::
  "('s, 't, 'o, 'y, 'k) nn_lib \<Rightarrow> int \<Rightarrow> real \<Rightarrow> int \<Rightarrow> error + 't positional_encoding" where
  "positional_encoding_init N d_model p max_len =
     (case module_init N of Inl e \<Rightarrow> Inl e | Inr u \<Rightarrow>
      (case nn_Dropout N p of Inl e \<Rightarrow> Inl e | Inr dr \<Rightarrow>
       (case zeros N max_len d_model of Inl e \<Rightarrow> Inl e | Inr pe0 \<Rightarrow>
        (case arange_float N 0 max_len of Inl e \<Rightarrow> Inl e | Inr a1 \<Rightarrow>
         (case unsqueeze N a1 1 of Inl e \<Rightarrow> Inl e | Inr position \<Rightarrow>
          (case arange_step N 0 d_model 2 of Inl e \<Rightarrow> Inl e | Inr a2 \<Rightarrow>
           (case to_float N a2 of Inl e \<Rightarrow> Inl e | Inr a3 \<Rightarrow>
            if d_model = 0 then Inl ZeroDivisionError else
            (case mul_float N a3 (- ln 10000 / real_of_int d_model) of Inl e \<Rightarrow> Inl e | Inr a4 \<Rightarrow>
             (case texp N a4 of Inl e \<Rightarrow> Inl e | Inr div_term \<Rightarrow>
              (case tmul N position div_term of Inl e \<Rightarrow> Inl e | Inr a5 \<Rightarrow>
               (case tsin N a5 of Inl e \<Rightarrow> Inl e | Inr a6 \<Rightarrow>
                (case set_columns N pe0 0 a6 of Inl e \<Rightarrow> Inl e | Inr pe1 \<Rightarrow>
                 (case tmul N position div_term of Inl e \<Rightarrow> Inl e | Inr a7 \<Rightarrow>
                  (case tcos N a7 of Inl e \<Rightarrow> Inl e | Inr a8 \<Rightarrow>
                   (case set_columns N pe1 1 a8 of Inl e \<Rightarrow> Inl e | Inr pe2 \<Rightarrow>
                    (case unsqueeze N pe2 0 of Inl e \<Rightarrow> Inl e | Inr pe3 \<Rightarrow>
                     (case transpose01 N pe3 of Inl e \<Rightarrow> Inl e | Inr pe4 \<Rightarrow>
                      (case register_buffer N pe4 of Inl e \<Rightarrow> Inl e | Inr pe5 \<Rightarrow>
                         Inr \<lparr>dropout = dr, pe = pe5\<rparr>))))))))))))))))))"

text \<open>
  \<^verbatim>\<open>
  def init_weights(self):
      initrange = 0.1
      self.encoder.weight.data.uniform_(-initrange, initrange)
      self.decoder.bias.data.zero_()
      self.decoder.weight.data.uniform_(-initrange, initrange)
  \<close>
\<close>

definition init_weights ::
  "('s, 't, 'o, 'y, 'k) nn_lib \<Rightarrow> ('s, 't, 'o, 'k) transformer_model \<Rightarrow>
   error + ('s, 't, 'o, 'k) transformer_model" where
  "init_weights N self =
     (case embedding_uniform N (encoder self) (- (1 / 10)) (1 / 10) of Inl e \<Rightarrow> Inl e | Inr enc \<Rightarrow>
      (case linear_bias_zero N (decoder self) of Inl e \<Rightarrow> Inl e | Inr dec0 \<Rightarrow>
       (case linear_uniform N dec0 (- (1 / 10)) (1 / 10) of Inl e \<Rightarrow> Inl e | Inr dec \<Rightarrow>
          Inr (self\<lparr>encoder := enc, decoder := dec\<rparr>))))"

text \<open>\<open>TransformerModel.__init__\<close>, whose source is shown with \<open>forward\<close> above;
  \<open>import_encoder\<close> is its \<open>import\<close> statement, and \<open>max_len\<close> has its default 5000.\<close>

definition transformer_model_init ::
  "('s, 't, 'o, 'y, 'k) nn_lib \<Rightarrow> int \<Rightarrow> int \<Rightarrow> int \<Rightarrow> int \<Rightarrow> int \<Rightarrow> real \<Rightarrow>
   error + ('s, 't, 'o, 'k) transformer_model" where
  "transformer_model_init N ntoken ninp0 nhead nhid nlayers p =
     (case module_init N of Inl e \<Rightarrow> Inl e | Inr u \<Rightarrow>
      (case import_encoder N of Inl e \<Rightarrow> Inl e | Inr u1 \<Rightarrow>
       (case positional_encoding_init N ninp0 p 5000 of Inl e \<Rightarrow> Inl e | Inr pos \<Rightarrow>
        (case nn_TransformerEncoderLayer N ninp0 nhead nhid p of Inl e \<Rightarrow> Inl e | Inr encoder_layers \<Rightarrow>
         (case nn_TransformerEncoder N encoder_layers nlayers of Inl e \<Rightarrow> Inl e | Inr tenc \<Rightarrow>
          (case nn_Embedding N ntoken ninp0 of Inl e \<Rightarrow> Inl e | Inr enc \<Rightarrow>
           (case nn_Linear N ninp0 ntoken of Inl e \<Rightarrow> Inl e | Inr dec \<Rightarrow>
              init_weights N
                \<lparr>model_type = ''Transformer'', src_mask = None, pos_encoder = pos,
                 transformer_encoder = tenc, encoder = enc, ninp = ninp0, decoder = dec\<rparr>)))))))"

subsection \<open>\<open>get_batch\<close>\<close>

text \<open>
  \<^verbatim>\<open>
  bptt = 35
  def get_batch(source, i):
      seq_len = min(bptt, len(source) - 1 - i)
      data = source[i:i+seq_len]
      target = source[i+1:i+1+seq_len].view(-1)
      return data, target
  \<close>
  \<open>'s\<close> is the type of a batchified tensor and of its slices, \<open>'g\<close> of a flattened
  target. \<open>len\<close>, \<open>size(0)\<close>, slicing and \<open>view(-1)\<close> are calls into the framework: \<open>len\<close>
  raises on a tensor without dimensions, \<open>view\<close> on one that is not contiguous.
\<close>

record ('s, 'g) source_lib =
  data_size0 :: "'s \<Rightarrow> error + int"
  data_len :: "'s \<Rightarrow> error + int"
  data_slice :: "'s \<Rightarrow> int \<Rightarrow> int \<Rightarrow> error + 's"
  data_view1 :: "'s \<Rightarrow> error + 'g"

definition bptt :: int where
  "bptt = 35"

definition get_batch :: "('s, 'g) source_lib \<Rightarrow> 's \<Rightarrow> int \<Rightarrow> error + ('s \<times> 'g)" where
  "get_batch G source i =
     (case data_len G source of Inl e \<Rightarrow> Inl e | Inr n \<Rightarrow>
        let seq_len = min bptt (n - 1 - i) in
        (case data_slice G source i (i + seq_len) of Inl e \<Rightarrow> Inl e | Inr data \<Rightarrow>
         (case data_slice G source (i + 1) (i + 1 + seq_len) of Inl e \<Rightarrow> Inl e | Inr target0 \<Rightarrow>
          (case data_view1 G target0 of Inl e \<Rightarrow> Inl e | Inr target \<Rightarrow>
             Inr (data, target)))))"

subsection \<open>\<open>train\<close> and \<open>evaluate\<close>\<close>

text \<open>
  The calls of the training cell into the framework. \<open>'m\<close> is the state of the model
  object (its parameters, their gradients, its mode and its cached mask), \<open>'p\<close> the state
  of the optimizer and of the learning-rate scheduler, \<open>'o\<close> the type of the model's
  output, \<open>'f\<close> of the flattened output and \<open>'l\<close> of a loss tensor. A call that changes an
  object returns its new state, and every call may raise. An exception ends the run of the
  cell, so no state is returned with it. \<open>ntokens\<close> is the size of the vocabulary,
  \<open>len(TEXT.vocab.stoi)\<close>.
\<close>

record ('m, 'p, 's, 'g, 'o, 'f, 'l) training_lib =
  set_train :: "'m \<Rightarrow> error + 'm"
  set_eval :: "'m \<Rightarrow> error + 'm"
  call_model :: "'m \<Rightarrow> 's \<Rightarrow> error + ('o \<times> 'm)"
  view_flat :: "'o \<Rightarrow> int \<Rightarrow> error + 'f"
  criterion :: "'f \<Rightarrow> 'g \<Rightarrow> error + 'l"
  item :: "'l \<Rightarrow> error + real"
  zero_grad :: "'m \<Rightarrow> error + 'm"
  backward :: "'l \<Rightarrow> 'm \<Rightarrow> error + 'm"
  clip_grad_norm :: "'m \<Rightarrow> real \<Rightarrow> error + 'm"
  optimizer_step :: "'p \<Rightarrow> 'm \<Rightarrow> error + ('p \<times> 'm)"
  get_lr :: "'p \<Rightarrow> error + real"
  scheduler_step :: "'p \<Rightarrow> error + 'p"
  math_exp :: "real \<Rightarrow> error + real"

text \<open>
  \<^verbatim>\<open>
  def train():
      model.train() # Turn on the train mode
      total_loss = 0.
      start_time = time.time()
      ntokens = len(TEXT.vocab.stoi)
      for batch, i in enumerate(range(0, train_data.size(0) - 1, bptt)):
          data, targets = get_batch(train_data, i)
          optimizer.zero_grad()
          output = model(data)
          loss = criterion(output.view(-1, ntokens), targets)
          loss.backward()
          torch.nn.utils.clip_grad_norm_(model.parameters(), 0.5)
          optimizer.step()

          total_loss += loss.item()
          log_interval = 200
          if batch % log_interval == 0 and batch > 0:
              cur_loss = total_loss / log_interval
              elapsed = time.time() - start_time
              print('| epoch {:3d} | {:5d}/{:5d} batches | '
                    'lr {:02.2f} | ms/batch {:5.2f} | '
                    'loss {:5.2f} | ppl {:8.2f}'.format(
                      epoch, batch, len(train_data) // bptt, scheduler.get_lr()[0],
                      elapsed * 1000 / log_interval,
                      cur_loss, math.exp(cur_loss)))
              total_loss = 0
              start_time = time.time()
  \<close>
  The printed line and the clock are output only (\<open>train\<close> returns nothing, and the
  model of it returns the two objects it has changed); the calls \<open>len(train_data)\<close>,
  \<open>scheduler.get_lr()\<close> and \<open>math.exp(cur_loss)\<close> among the arguments of \<open>print\<close> are
  kept, in their order, since they may raise.
\<close>

fun train_loop ::
  "('m, 'p, 's, 'g, 'o, 'f, 'l) training_lib \<Rightarrow> ('s, 'g) source_lib \<Rightarrow> int \<Rightarrow> 's \<Rightarrow>
   (nat \<times> int) list \<Rightarrow> real \<Rightarrow> 'p \<times> 'm \<Rightarrow> error + (real \<times> 'p \<times> 'm)" where
  "train_loop L G ntokens train_data [] total_loss (p, m) = Inr (total_loss, p, m)"
| "train_loop L G ntokens train_data ((batch, i) # rest) total_loss (p, m) =
     (case get_batch G train_data i of Inl e \<Rightarrow> Inl e | Inr (data, targets) \<Rightarrow>
      (case zero_grad L m of Inl e \<Rightarrow> Inl e | Inr m1 \<Rightarrow>
       (case call_model L m1 data of Inl e \<Rightarrow> Inl e | Inr (output, m2) \<Rightarrow>
        (case view_flat L output ntokens of Inl e \<Rightarrow> Inl e | Inr flat \<Rightarrow>
         (case criterion L flat targets of Inl e \<Rightarrow> Inl e | Inr loss \<Rightarrow>
          (case backward L loss m2 of Inl e \<Rightarrow> Inl e | Inr m3 \<Rightarrow>
           (case clip_grad_norm L m3 (1 / 2) of Inl e \<Rightarrow> Inl e | Inr m4 \<Rightarrow>
            (case optimizer_step L p m4 of Inl e \<Rightarrow> Inl e | Inr (p1, m5) \<Rightarrow>
             (case item L loss of Inl e \<Rightarrow> Inl e | Inr v \<Rightarrow>
                if batch mod 200 = 0 \<and> batch > 0 then
                  (case data_len G train_data of Inl e \<Rightarrow> Inl e | Inr k \<Rightarrow>
                   (case get_lr L p1 of Inl e \<Rightarrow> Inl e | Inr lr \<Rightarrow>
                    (case math_exp L ((total_loss + v) / 200) of Inl e \<Rightarrow> Inl e
                     | Inr ppl \<Rightarrow> train_loop L G ntokens train_data rest 0 (p1, m5))))
                else train_loop L G ntokens train_data rest (total_loss + v) (p1, m5))))))))))"

definition train ::
  "('m, 'p, 's, 'g, 'o, 'f, 'l) training_lib \<Rightarrow> ('s, 'g) source_lib \<Rightarrow> int \<Rightarrow> 's \<Rightarrow>
   'p \<times> 'm \<Rightarrow> error + ('p \<times> 'm)" where
  "train L G ntokens train_data pm =
     (case set_train L (snd pm) of Inl e \<Rightarrow> Inl e | Inr m0 \<Rightarrow>
      (case data_size0 G train_data of Inl e \<Rightarrow> Inl e | Inr n \<Rightarrow>
       (case train_loop L G ntokens train_data (enumerate 0 (py_range (n - 1) bptt)) 0
               (fst pm, m0) of
          Inl e \<Rightarrow> Inl e
        | Inr (total_loss, p, m) \<Rightarrow> Inr (p, m))))"

text \<open>
  \<^verbatim>\<open>
  def evaluate(eval_model, data_source):
      eval_model.eval() # Turn on the evaluation mode
      total_loss = 0.
      ntokens = len(TEXT.vocab.stoi)
      with torch.no_grad():
          for i in range(0, data_source.size(0) - 1, bptt):
              data, targets = get_batch(data_source, i)
              output = eval_model(data)
              output_flat = output.view(-1, ntokens)
              total_loss += len(data) * criterion(output_flat, targets).item()
      return total_loss / (len(data_source) - 1)
  \<close>
  The final division raises when \<open>len(data_source)\<close> is 1. \<open>torch.no_grad()\<close> switches
  the recording of gradients off and on again; it changes no value and lets an exception
  through.
\<close>

fun evaluate_loop ::
  "('m, 'p, 's, 'g, 'o, 'f, 'l) training_lib \<Rightarrow> ('s, 'g) source_lib \<Rightarrow> int \<Rightarrow> 's \<Rightarrow>
   int list \<Rightarrow> real \<Rightarrow> 'm \<Rightarrow> error + (real \<times> 'm)" where
  "evaluate_loop L G ntokens data_source [] total_loss m = Inr (total_loss, m)"
| "evaluate_loop L G ntokens data_source (i # rest) total_loss m =
     (case get_batch G data_source i of Inl e \<Rightarrow> Inl e | Inr (data, targets) \<Rightarrow>
      (case call_model L m data of Inl e \<Rightarrow> Inl e | Inr (output, m1) \<Rightarrow>
       (case view_flat L output ntokens of Inl e \<Rightarrow> Inl e | Inr output_flat \<Rightarrow>
        (case data_len G data of Inl e \<Rightarrow> Inl e | Inr k \<Rightarrow>
         (case criterion L output_flat targets of Inl e \<Rightarrow> Inl e | Inr loss \<Rightarrow>
          (case item L loss of Inl e \<Rightarrow> Inl e | Inr v \<Rightarrow>
             evaluate_loop L G ntokens data_source rest
               (total_loss + real_of_int k * v) m1))))))"

definition evaluate ::
  "('m, 'p, 's, 'g, 'o, 'f, 'l) training_lib \<Rightarrow> ('s, 'g) source_lib \<Rightarrow> int \<Rightarrow> 'm \<Rightarrow> 's \<Rightarrow>
   error + (real \<times> 'm)" where
  "evaluate L G ntokens eval_model data_source =
     (case set_eval L eval_model of Inl e \<Rightarrow> Inl e | Inr m0 \<Rightarrow>
      (case data_size0 G data_source of Inl e \<Rightarrow> Inl e | Inr n \<Rightarrow>
       (case evaluate_loop L G ntokens data_source (py_range (n - 1) bptt) 0 m0 of
          Inl e \<Rightarrow> Inl e
        | Inr (total_loss, m) \<Rightarrow>
          (case data_len G data_source of Inl e \<Rightarrow> Inl e | Inr k \<Rightarrow>
             if k - 1 = 0 then Inl ZeroDivisionError
             else Inr (total_loss / real_of_int (k - 1), m)))))"

subsection \<open>The loop over epochs\<close>

text \<open>
  \<^verbatim>\<open>
  best_val_loss = float("inf")
  epochs = 3 # The number of epochs
  best_model = None

  for epoch in range(1, epochs + 1):
      epoch_start_time = time.time()
      train()
      val_loss = evaluate(model, val_data)
      print('-' * 89)
      print('| end of epoch {:3d} | time: {:5.2f}s | valid loss {:5.2f} | '
            'valid ppl {:8.2f}'.format(epoch, (time.time() - epoch_start_time),
                                       val_loss, math.exp(val_loss)))
      print('-' * 89)

      if val_loss < best_val_loss:
          best_val_loss = val_loss
          best_model = model

      scheduler.step()
  \<close>
  \<open>model\<close> and \<open>best_model\<close> are Python variables that hold references to objects. The
  objects live in a heap, a map from addresses to object states; \<open>best_model = model\<close>
  copies the reference, not the object. \<open>train\<close> and \<open>evaluate\<close> change the object that
  \<open>model\<close> refers to in place.
\<close>

record ('m, 'p) notebook =
  heap :: "nat \<Rightarrow> 'm"
  optim :: 'p
  model :: nat
  best_model :: "nat option"
  best_val_loss :: pyfloat

fun epoch_loop ::
  "('m, 'p, 's, 'g, 'o, 'f, 'l) training_lib \<Rightarrow> ('s, 'g) source_lib \<Rightarrow> int \<Rightarrow> 's \<Rightarrow> 's \<Rightarrow>
   nat list \<Rightarrow> ('m, 'p) notebook \<Rightarrow> error + ('m, 'p) notebook" where
  "epoch_loop L G ntokens train_data val_data [] s = Inr s"
| "epoch_loop L G ntokens train_data val_data (epoch # rest) s =
     (case train L G ntokens train_data (optim s, heap s (model s)) of Inl e \<Rightarrow> Inl e
      | Inr (p1, m1) \<Rightarrow>
        (case evaluate L G ntokens m1 val_data of Inl e \<Rightarrow> Inl e
         | Inr (val_loss, m2) \<Rightarrow>
           (case math_exp L val_loss of Inl e \<Rightarrow> Inl e
            | Inr ppl \<Rightarrow>
              (let s1 = s\<lparr>heap := (heap s)(model s := m2), optim := p1\<rparr>;
                   s2 = (if pyfloat_less (Fin val_loss) (best_val_loss s1)
                         then s1\<lparr>best_val_loss := Fin val_loss, best_model := Some (model s1)\<rparr>
                         else s1)
               in (case scheduler_step L (optim s2) of Inl e \<Rightarrow> Inl e
                   | Inr p2 \<Rightarrow>
                       epoch_loop L G ntokens train_data val_data rest (s2\<lparr>optim := p2\<rparr>))))))"

text \<open>The cell as written: three epochs, from the initial values of the two variables.\<close>

definition run_epochs ::
  "('m, 'p, 's, 'g, 'o, 'f, 'l) training_lib \<Rightarrow> ('s, 'g) source_lib \<Rightarrow> int \<Rightarrow> 's \<Rightarrow> 's \<Rightarrow>
   'p \<Rightarrow> 'm \<Rightarrow> error + ('m, 'p) notebook" where
  "run_epochs L G ntokens train_data val_data p0 m0 =
     epoch_loop L G ntokens train_data val_data [1, 2, 3]
       \<lparr>heap = (\<lambda>a. m0), optim = p0, model = 0, best_model = None, best_val_loss = PosInf\<rparr>"

text \<open>\<open>evaluate(best_model, data)\<close> after the loop: the object that the variable refers to,
  in the state the heap holds for it now. Calling \<open>eval\<close> on \<open>None\<close> raises.\<close>

definition evaluate_best ::
  "('m, 'p, 's, 'g, 'o, 'f, 'l) training_lib \<Rightarrow> ('s, 'g) source_lib \<Rightarrow> int \<Rightarrow>
   ('m, 'p) notebook \<Rightarrow> 's \<Rightarrow> error + real" where
  "evaluate_best L G ntokens s data_source =
     (case best_model s of
        None \<Rightarrow> Inl AttributeError
      | Some a \<Rightarrow> (case evaluate L G ntokens (heap s a) data_source of
                    Inl e \<Rightarrow> Inl e | Inr (l, m) \<Rightarrow> Inr l))"

section \<open>The autograd notebook\<close>

text \<open>
  \<^verbatim>\<open>
  x = torch.ones(2, 2, requires_grad=True)
  y = x + 2
  z = y * y * 3
  out = z.mean()
  a = torch.randn(2, 2)
  ...
  out.backward()
  print(x.grad)
  \<close>
  A tensor that tracks its history is its value together with the operation and the
  operands that made it (its \<open>grad_fn\<close>); a tensor made by the user is a leaf. These are
  the operations of the framework that the cells above call, on matrices of reals: all the
  numbers that occur (1, 3, 9, 27, 0.25, 0.75, 2.25, 4.5) are floating-point numbers, and
  the operations on them are exact.
\<close>

datatype tensor =
  Leaf nat "real list list"
| AddScalar tensor real
| Mul tensor tensor
| MulScalar tensor real
| Mean tensor

fun tensor_data :: "tensor \<Rightarrow> real list list" where
  "tensor_data (Leaf n v) = v"
| "tensor_data (AddScalar a c) = map (map (\<lambda>u. u + c)) (tensor_data a)"
| "tensor_data (Mul a b) = map2 (map2 (*)) (tensor_data a) (tensor_data b)"
| "tensor_data (MulScalar a c) = map (map (\<lambda>u. u * c)) (tensor_data a)"
| "tensor_data (Mean a) =
     [[sum_list (concat (tensor_data a)) / real (length (concat (tensor_data a)))]]"

text \<open>
  \<open>backward\<close>: the gradient \<open>g\<close> of the result with respect to a tensor is passed down to
  its operands by the chain rule and added up in the \<open>.grad\<close> of the leaves. \<open>grads\<close> maps
  the number of a leaf to its \<open>.grad\<close>, \<open>None\<close> before any gradient has reached it.
\<close>

definition accumulate ::
  "(nat \<Rightarrow> real list list option) \<Rightarrow> nat \<Rightarrow> real list list \<Rightarrow> nat \<Rightarrow> real list list option" where
  "accumulate grads n g =
     grads(n := (case grads n of None \<Rightarrow> Some g | Some old \<Rightarrow> Some (map2 (map2 (+)) old g)))"

fun backprop ::
  "tensor \<Rightarrow> real list list \<Rightarrow> (nat \<Rightarrow> real list list option) \<Rightarrow> nat \<Rightarrow> real list list option" where
  "backprop (Leaf n v) g grads = accumulate grads n g"
| "backprop (AddScalar a c) g grads = backprop a g grads"
| "backprop (Mul a b) g grads =
     backprop b (map2 (map2 (*)) g (tensor_data a))
       (backprop a (map2 (map2 (*)) g (tensor_data b)) grads)"
| "backprop (MulScalar a c) g grads = backprop a (map (map (\<lambda>u. u * c)) g) grads"
| "backprop (Mean a) g grads =
     backprop a
       (map (map (\<lambda>u. (case g of (g0 # _) # _ \<Rightarrow> g0 | _ \<Rightarrow> 0) /
                        real (length (concat (tensor_data a)))))
            (tensor_data a))
       grads"

text \<open>
  The cells in the order of the notebook. \<open>torch.randn\<close> draws from the generator of
  random numbers, whose state \<open>g\<close> differs from run to run; \<open>out.backward()\<close> on a tensor
  with one element starts from the gradient 1. The result is what \<open>print(x.grad)\<close>
  shows.
\<close>

definition autograd_example ::
  "('g \<Rightarrow> real list list \<times> 'g) \<Rightarrow> 'g \<Rightarrow> real list list option" where
  "autograd_example randn g =
     (let x0 = Leaf 0 [[1, 1], [1, 1]];
          y0 = AddScalar x0 2;
          z0 = MulScalar (Mul y0 y0) 3;
          out = Mean z0;
          (a0, g1) = randn g;
          grads = backprop out [[1]] (\<lambda>n. None)
      in grads 0)"

section \<open>The framework on lists, and instances for running the code\<close>

text \<open>
  The calls of \<open>batchify\<close>, of the mask generator and of \<open>get_batch\<close> on tensors of token
  ids and on masks, with the list operations of the first section: \<open>contiguous\<close> changes
  the memory layout only, and on a batchified tensor \<open>len\<close>, \<open>size(0)\<close>, slicing and
  \<open>view(-1)\<close> do not raise.
\<close>

definition list_tensor :: "('a list, 'a list list) tensor_lib" where
  "list_tensor =
     \<lparr>tensor_size0 = (\<lambda>xs. Inr (int (length xs))),
      tensor_narrow0 = narrow,
      tensor_view2 = view,
      tensor_t = (\<lambda>m. Inr (t m)),
      tensor_contiguous = Inr\<rparr>"

definition list_mask :: "(real list list, bool list list, pyfloat list list) mask_lib" where
  "list_mask =
     \<lparr>mask_ones = ones,
      mask_triu = (\<lambda>m. Inr (triu m)),
      mask_eq = (\<lambda>m c. Inr (eq_scalar m c)),
      mask_transpose = (\<lambda>m. Inr (t m)),
      mask_float = (\<lambda>m. Inr (float_of_bool m)),
      mask_eq_bool = (\<lambda>m c. Inr (eq_bool m c)),
      mask_masked_fill = (\<lambda>m c v. Inr (masked_fill m c v))\<rparr>"

definition list_source :: "(int list list, int list) source_lib" where
  "list_source =
     \<lparr>data_size0 = (\<lambda>s. Inr (int (length s))),
      data_len = (\<lambda>s. Inr (int (length s))),
      data_slice = (\<lambda>s a b. Inr (py_slice s a b)),
      data_view1 = (\<lambda>s. Inr (concat s))\<rparr>"

text \<open>
  An instance of the calls of \<open>forward\<close> for running the model code on concrete values:
  a batch is a list of rows of token ids, an activation holds one number per position, the
  embedding adds up the ids of a row, and the transformer encoder and the linear decoder
  are the identity. \<open>small_model p\<close> is a model object as \<open>__init__\<close> leaves it
  (\<open>src_mask\<close> is \<open>None\<close>), with positional table \<open>p\<close>.
\<close>

definition small_ops :: "(int list list, real list, pyfloat list list) tensor_ops" where
  "small_ops =
     \<lparr>src_size0 = (\<lambda>s. Inr (int (length s))),
      mask_size0 = (\<lambda>m. Inr (int (length m))),
      mask_to = Inr,
      size0 = (\<lambda>x. Inr (int (length x))),
      slice0 = (\<lambda>p n. Inr (take (nat n) p)),
      tadd = (\<lambda>x p. if length x = length p then Inr (map2 (+) x p) else Inl RuntimeError),
      scale = (\<lambda>x r. Inr (map (\<lambda>v. v * r) x)),
      py_math_sqrt = math_sqrt\<rparr>"

definition small_model ::
  "real list \<Rightarrow> (int list list, real list, real list, pyfloat list list) transformer_model" where
  "small_model p =
     \<lparr>model_type = ''Transformer'',
      src_mask = None,
      pos_encoder = \<lparr>dropout = Inr, pe = p\<rparr>,
      transformer_encoder = (\<lambda>x m. Inr x),
      encoder = (\<lambda>s. Inr (map (\<lambda>row. real_of_int (sum_list row)) s)),
      ninp = 1,
      decoder = Inr\<rparr>"

text \<open>
  An instance of the training calls: the model has one parameter, its output and its loss
  on every batch are that parameter, and an optimizer step adds one to it, so the
  validation loss grows from epoch to epoch.
\<close>

definition drift_lib :: "(real, unit, int list list, int list, real, real, real) training_lib" where
  "drift_lib =
     \<lparr>set_train = Inr, set_eval = Inr,
      call_model = (\<lambda>m d. Inr (m, m)),
      view_flat = (\<lambda>out n. Inr out),
      criterion = (\<lambda>f tg. Inr f),
      item = Inr,
      zero_grad = Inr,
      backward = (\<lambda>l m. Inr m),
      clip_grad_norm = (\<lambda>m c. Inr m),
      optimizer_step = (\<lambda>p m. Inr (p, m + 1)),
      get_lr = (\<lambda>p. Inr 5),
      scheduler_step = Inr,
      math_exp = (\<lambda>v. Inr (exp v))\<rparr>"


section \<open>Properties of \<open>batchify\<close> and of the attention mask\<close>

lemma view_chunks:
  assumes "0 < r" "0 < c" "length xs = c * r"
  shows "view xs (int r) = Inr (map (\<lambda>k. take c (drop (k * c) xs)) [0..<r])"
proof -
  have d: "length xs div r = c" using assms by simp
  have m: "int (length xs) mod int r = 0" using assms by (simp flip: of_nat_mod)
  show ?thesis using assms(1) d m by (simp add: view_def)
qed

lemma t_chunks:
  assumes "0 < r" "length xs = c * r"
  shows "t (map (\<lambda>k. take c (drop (k * c) xs)) [0..<r]) =
         map (\<lambda>i. map (\<lambda>k. xs ! (k * c + i)) [0..<r]) [0..<c]"
proof -
  have le: "c \<le> length xs" using assms by simp
  have hd: "[0..<r] = 0 # [Suc 0..<r]" using assms(1) by (simp add: upt_rec)
  have idx: "\<And>k i. k < r \<Longrightarrow> i < c \<Longrightarrow> k * c + i < length xs"
  proof -
    fix k i assume "k < r" "i < c"
    then have "k * c + i < Suc k * c" by simp
    also have "\<dots> \<le> r * c" using \<open>k < r\<close> by (intro mult_le_mono1) simp
    finally show "k * c + i < length xs" using assms(2) by (simp add: mult.commute)
  qed
  have "t (map (\<lambda>k. take c (drop (k * c) xs)) [0..<r]) =
        map (\<lambda>j. map (\<lambda>row. row ! j) (map (\<lambda>k. take c (drop (k * c) xs)) [0..<r])) [0..<c]"
  proof -
    obtain y ys where e: "map (\<lambda>k. take c (drop (k * c) xs)) [0..<r] = y # ys" and y: "y = take c xs"
      by (simp add: hd)
    have "length y = c" using le y by simp
    then show ?thesis unfolding e by (simp add: t_def)
  qed
  also have "\<dots> = map (\<lambda>i. map (\<lambda>k. xs ! (k * c + i)) [0..<r]) [0..<c]"
  proof -
    have nd: "take c (drop (k * c) xs) ! i = xs ! (k * c + i)" if "k < r" "i < c" for k i
    proof -
      have "k * c + i < length xs" using idx that by simp
      then have "k * c \<le> length xs" by simp
      then show ?thesis using that by simp
    qed
    show ?thesis using nd by simp
  qed
  finally show ?thesis .
qed

lemma concat_chunks:
  "concat (map (\<lambda>k. take c (drop (k * c) xs)) [0..<r]) = take (r * c) xs"
proof (induction r)
  case 0 show ?case by simp
next
  case (Suc r)
  have "take (r * c) xs @ take c (drop (r * c) xs) = take (r * c + c) xs"
    by (simp add: take_add)
  with Suc show ?case by (simp add: add.commute)
qed

lemma batchify_closed:
  assumes num: "numericalize data = Inr toks" and b1: "1 \<le> bsz" and b2: "bsz \<le> int (length toks)"
  shows "batchify list_tensor numericalize to_device data bsz =
         to_device (map (\<lambda>i. map (\<lambda>j. toks ! (j * (length toks div nat bsz) + i)) [0..<nat bsz])
                        [0..<length toks div nat bsz])"
proof -
  define b where "b = nat bsz"
  define nb where "nb = length toks div b"
  have bpos: "0 < b" and bsz: "bsz = int b" using b1 by (simp_all add: b_def)
  have ble: "b \<le> length toks" using b2 bsz by simp
  have nbpos: "0 < nb" using bpos ble by (simp add: nb_def div_greater_zero_iff)
  have le: "nb * b \<le> length toks" by (simp add: nb_def)
  have nbatch: "int (length toks) div bsz = int nb" by (simp add: bsz nb_def zdiv_int)
  have nar: "narrow toks 0 (int nb * bsz) = Inr (take (nb * b) toks)"
    using le by (simp add: narrow_def bsz flip: of_nat_mult)
  have len2: "length (take (nb * b) toks) = nb * b" using le by simp
  have vw: "view (take (nb * b) toks) bsz =
            Inr (map (\<lambda>k. take nb (drop (k * nb) (take (nb * b) toks))) [0..<b])"
    unfolding bsz by (rule view_chunks[OF bpos nbpos len2])
  have tr: "t (map (\<lambda>k. take nb (drop (k * nb) (take (nb * b) toks))) [0..<b]) =
            map (\<lambda>i. map (\<lambda>k. take (nb * b) toks ! (k * nb + i)) [0..<b]) [0..<nb]"
    by (rule t_chunks[OF bpos len2])
  have idx: "k * nb + i < nb * b" if "k < b" "i < nb" for k i
  proof -
    have "k * nb + i < Suc k * nb" using that by simp
    also have "\<dots> \<le> b * nb" using that by (intro mult_le_mono1) simp
    finally show ?thesis by (simp add: mult.commute)
  qed
  have tr2: "map (\<lambda>i. map (\<lambda>k. take (nb * b) toks ! (k * nb + i)) [0..<b]) [0..<nb] =
             map (\<lambda>i. map (\<lambda>k. toks ! (k * nb + i)) [0..<b]) [0..<nb]"
    using idx by simp
  have nz: "bsz \<noteq> 0" using b1 by simp
  show ?thesis
    unfolding batchify_def num using nz
    by (simp add: list_tensor_def nbatch Let_def nar vw tr tr2) (simp add: nb_def b_def)
qed

lemma t_table:
  "t (map (\<lambda>i. map (f i) [0..<c]) [0..<r]) =
     (if r = 0 then [] else map (\<lambda>j. map (\<lambda>i. f i j) [0..<r]) [0..<c])"
proof (cases "r = 0")
  case True then show ?thesis by (simp add: t_def)
next
  case False
  then have "[0..<r] = 0 # [Suc 0..<r]" by (simp add: upt_rec)
  then obtain ys where e: "map (\<lambda>i. map (f i) [0..<c]) [0..<r] = map (f 0) [0..<c] # ys"
    by simp
  have "t (map (\<lambda>i. map (f i) [0..<c]) [0..<r]) =
        map (\<lambda>j. map (\<lambda>row. row ! j) (map (\<lambda>i. map (f i) [0..<c]) [0..<r])) [0..<c]"
    unfolding t_def e[symmetric] by (simp add: e)
  also have "\<dots> = map (\<lambda>j. map (\<lambda>i. f i j) [0..<r]) [0..<c]" by simp
  finally show ?thesis using False by simp
qed

lemma mask_closed:
  assumes "0 \<le> sz"
  shows "generate_square_subsequent_mask list_mask sz =
         Inr (map (\<lambda>i. map (\<lambda>j. if j \<le> i then Fin 0 else NegInf) [0..<nat sz]) [0..<nat sz])"
proof -
  define n where "n = nat sz"
  have o: "ones sz sz = Inr (replicate n (replicate n 1))" using assms by (simp add: ones_def n_def)
  have tu: "eq_scalar (triu (replicate n (replicate n 1))) 1 = map (\<lambda>i. map (\<lambda>j. i \<le> j) [0..<n]) [0..<n]"
    by (simp add: triu_def eq_scalar_def)
  have tt: "t (map (\<lambda>i. map (\<lambda>j. i \<le> j) [0..<n]) [0..<n]) = map (\<lambda>i. map (\<lambda>j. j \<le> i) [0..<n]) [0..<n]"
    by (simp add: t_table)
  have z: "zip xs xs = map (\<lambda>x. (x, x)) xs" for xs :: "'b list"
    by (induction xs) simp_all
  show ?thesis
    unfolding generate_square_subsequent_mask_def
    apply (simp add: list_mask_def o tu tt Let_def n_def[symmetric])
    apply (simp add: masked_fill_def float_of_bool_def eq_bool_def zip_map_map z)
    done
qed


text \<open>
  Claim C4. For a token sequence of length \<open>n\<close> and \<open>1 \<le> bsz \<le> n\<close>, \<open>batchify\<close> (on
  the list tensors, with a \<open>to(device)\<close> that keeps the values) returns \<open>n div bsz\<close> rows of \<open>bsz\<close> columns; column \<open>j\<close> is the contiguous chunk of
  the input starting at position \<open>j * (n div bsz)\<close>; the columns, one after the other,
  are the input without its final \<open>n mod bsz\<close> tokens, so no position of that tail
  is read.
\<close>

theorem batchify_columns:
  assumes "numericalize data = Inr toks" and "\<And>m. to_device m = Inr m"
    and "1 \<le> bsz" and "bsz \<le> int (length toks)"
  shows "\<exists>res. batchify list_tensor numericalize to_device data bsz = Inr res \<and>
           length res = length toks div nat bsz \<and>
           (\<forall>row \<in> set res. length row = nat bsz) \<and>
           (\<forall>j < nat bsz. map (\<lambda>row. row ! j) res =
                take (length toks div nat bsz) (drop (j * (length toks div nat bsz)) toks)) \<and>
           concat (map (\<lambda>j. map (\<lambda>row. row ! j) res) [0..<nat bsz]) =
             take (length toks - length toks mod nat bsz) toks"
proof -
  define b where "b = nat bsz"
  define nb where "nb = length toks div b"
  define res where "res = map (\<lambda>i. map (\<lambda>j. toks ! (j * nb + i)) [0..<b]) [0..<nb]"
  have r: "batchify list_tensor numericalize to_device data bsz = Inr res"
    using batchify_closed[of numericalize data toks bsz to_device, OF assms(1,3,4)] assms(2)
    by (simp add: res_def nb_def b_def)
  have le: "nb * b \<le> length toks" by (simp add: nb_def)
  have idx: "j * nb + i < length toks" if "j < b" "i < nb" for j i
  proof -
    have "j * nb + i < Suc j * nb" using that by simp
    also have "\<dots> \<le> b * nb" using that by (intro mult_le_mono1) simp
    finally show ?thesis using le by (simp add: mult.commute)
  qed
  have col: "map (\<lambda>row. row ! j) res = take nb (drop (j * nb) toks)" if "j < b" for j
  proof (rule nth_equalityI)
    have "j * nb + nb \<le> length toks"
    proof -
      have "Suc j * nb \<le> b * nb" using that by (intro mult_le_mono1) simp
      then show ?thesis using le by (simp add: mult.commute)
    qed
    then show "length (map (\<lambda>row. row ! j) res) = length (take nb (drop (j * nb) toks))"
      by (simp add: res_def)
  next
    fix i assume "i < length (map (\<lambda>row. row ! j) res)"
    then have i: "i < nb" by (simp add: res_def)
    have "j * nb \<le> length toks" using idx[OF that i] by simp
    then show "map (\<lambda>row. row ! j) res ! i = take nb (drop (j * nb) toks) ! i"
      using i that by (simp add: res_def)
  qed
  have "concat (map (\<lambda>j. map (\<lambda>row. row ! j) res) [0..<b]) =
        concat (map (\<lambda>j. take nb (drop (j * nb) toks)) [0..<b])"
    using col by (intro arg_cong[where f = concat]) simp
  also have "\<dots> = take (b * nb) toks" by (rule concat_chunks)
  also have "b * nb = length toks - length toks mod b"
    by (simp add: nb_def minus_mod_eq_mult_div)
  finally have cc: "concat (map (\<lambda>j. map (\<lambda>row. row ! j) res) [0..<b]) =
                    take (length toks - length toks mod b) toks" .
  have "length res = nb" and "\<forall>row \<in> set res. length row = b"
    by (auto simp: res_def)
  with r col cc show ?thesis unfolding b_def nb_def by blast
qed

theorem batchify_columns_witness:
  "(\<lambda>d. Inr d) [1, 2, 3, 4, 5, 6, 7 :: int] = (Inr [1, 2, 3, 4, 5, 6, 7] :: error + int list) \<and>
   (1::int) \<le> 3 \<and> (3::int) \<le> int (length [1, 2, 3, 4, 5, 6, 7 :: int]) \<and>
   (\<exists>res. batchify list_tensor (\<lambda>d. Inr d) Inr [1, 2, 3, 4, 5, 6, 7 :: int] 3 = Inr res \<and>
      length res = 2 \<and> (\<forall>row \<in> set res. length row = 3) \<and>
      concat (map (\<lambda>j. map (\<lambda>row. row ! j) res) [0..<3]) = [1, 2, 3, 4, 5, 6])"
  using batchify_columns[of "\<lambda>d. Inr d" "[1, 2, 3, 4, 5, 6, 7 :: int]" "[1, 2, 3, 4, 5, 6, 7]" Inr 3]
  by simp blast

text \<open>
  Claim C5. For \<open>sz \<ge> 0\<close> the generated mask is a \<open>sz\<close>-by-\<open>sz\<close> matrix whose entry
  at row \<open>i\<close>, column \<open>j\<close> is \<open>0\<close> when \<open>j \<le> i\<close> and negative infinity when \<open>j > i\<close>:
  added to attention scores, it leaves a position its own and the earlier positions only.
\<close>

theorem mask_entries:
  assumes "0 \<le> sz"
  shows "\<exists>m. generate_square_subsequent_mask list_mask sz = Inr m \<and> length m = nat sz \<and>
           (\<forall>i < nat sz. length (m ! i) = nat sz \<and>
              (\<forall>j < nat sz. m ! i ! j = (if j \<le> i then Fin 0 else NegInf)))"
  unfolding mask_closed[OF assms] by simp

theorem mask_entries_witness:
  "(0::int) \<le> 2 \<and>
   (\<exists>m. generate_square_subsequent_mask list_mask 2 = Inr m \<and> length m = 2 \<and>
      (\<forall>i < 2. length (m ! i) = 2 \<and>
         (\<forall>j < 2. m ! i ! j = (if j \<le> i then Fin 0 else NegInf))))"
  using mask_entries[of 2] by simp

section \<open>Properties of \<open>TransformerModel.forward\<close>\<close>

lemma gen1: "generate_square_subsequent_mask list_mask 1 = Inr [[Fin 0]]"
  by (simp add: mask_closed)

lemma gen2:
  "generate_square_subsequent_mask list_mask 2 = Inr [[Fin 0, NegInf], [Fin 0, Fin 0]]"
  by code_simp

lemma fw1: "forward small_ops list_mask (small_model [5]) [[1]] = (Inr [6], (small_model [5])\<lparr>src_mask := Some [[Fin 0]]\<rparr>)"
  by (simp add: forward_def check_src_mask_def new_src_mask_def small_model_def small_ops_def gen1
       math_sqrt_def positional_encoding_forward_def)

lemma check_frame: "(snd (check_src_mask T M self src))\<lparr>src_mask := src_mask self\<rparr> = self"
  by (simp add: check_src_mask_def new_src_mask_def split: option.splits sum.splits)

lemma forward_snd: "snd (forward T M self src) = snd (check_src_mask T M self src)"
  by (simp add: forward_def split: prod.splits sum.splits)

text \<open>
  Claim C1, as the code has it. \<open>forward\<close> writes the field \<open>src_mask\<close> and no other:
  restoring that one field gives the object back. The object is left as it was when
  \<open>src_mask\<close> already holds a mask with as many rows as \<open>src\<close>; when the field is \<open>None\<close>
  or holds a mask of another size, it is replaced by the generated mask of size
  \<open>src.size(0)\<close>, moved to the device of \<open>src\<close>.
\<close>

theorem forward_writes_src_mask_only:
  "(snd (forward T M self src))\<lparr>src_mask := src_mask self\<rparr> = self \<and>
   (\<forall>old n. src_mask self = Some old \<and> mask_size0 T old = Inr n \<and> src_size0 T src = Inr n \<longrightarrow>
      snd (forward T M self src) = self) \<and>
   (\<forall>n m0 m1. (src_mask self = None \<or>
                (\<exists>old k. src_mask self = Some old \<and> mask_size0 T old = Inr k \<and> k \<noteq> n)) \<and>
      src_size0 T src = Inr n \<and> generate_square_subsequent_mask M n = Inr m0 \<and>
      mask_to T m0 = Inr m1 \<longrightarrow>
      snd (forward T M self src) = self\<lparr>src_mask := Some m1\<rparr>)"
  unfolding forward_snd
  by (auto simp: check_frame check_src_mask_def new_src_mask_def split: option.splits sum.splits)

text \<open>
  Claim C1 as stated (\<open>forward\<close> leaves every field of the model unchanged) fails on the
  first call after construction: \<open>src_mask\<close> is \<open>None\<close> before the call and a mask after it.
\<close>

theorem forward_changes_src_mask:
  "snd (forward small_ops list_mask (small_model [5]) [[1]]) \<noteq> small_model [5]"
proof
  assume "snd (forward small_ops list_mask (small_model [5]) [[1]]) = small_model [5]"
  then have "src_mask (snd (forward small_ops list_mask (small_model [5]) [[1]])) = src_mask (small_model [5])"
    by simp
  then show False by (simp add: fw1) (simp add: small_model_def)
qed

theorem forward_writes_src_mask_only_witness:
  "src_mask (small_model [5]) = None \<and> src_size0 small_ops [[1]] = Inr 1 \<and>
   generate_square_subsequent_mask list_mask 1 = Inr [[Fin 0]] \<and> mask_to small_ops [[Fin 0]] = Inr [[Fin 0]] \<and>
   snd (forward small_ops list_mask (small_model [5]) [[1]]) = (small_model [5])\<lparr>src_mask := Some [[Fin 0]]\<rparr> \<and>
   src_mask ((small_model [5])\<lparr>src_mask := Some [[Fin 0]]\<rparr>) = Some [[Fin 0]] \<and>
   mask_size0 small_ops [[Fin 0]] = Inr 1 \<and>
   snd (forward small_ops list_mask ((small_model [5])\<lparr>src_mask := Some [[Fin 0]]\<rparr>) [[1]]) =
     (small_model [5])\<lparr>src_mask := Some [[Fin 0]]\<rparr> \<and>
   (1::int) \<noteq> 2 \<and> src_size0 small_ops [[1], [2]] = Inr 2 \<and>
   generate_square_subsequent_mask list_mask 2 = Inr [[Fin 0, NegInf], [Fin 0, Fin 0]] \<and>
   mask_to small_ops [[Fin 0, NegInf], [Fin 0, Fin 0]] = Inr [[Fin 0, NegInf], [Fin 0, Fin 0]] \<and>
   snd (forward small_ops list_mask ((small_model [5])\<lparr>src_mask := Some [[Fin 0]]\<rparr>) [[1], [2]]) =
     (small_model [5])\<lparr>src_mask := Some [[Fin 0, NegInf], [Fin 0, Fin 0]]\<rparr>"
proof -
  have a: "src_mask (small_model [5]) = None" by (simp add: small_model_def)
  have b: "src_size0 small_ops [[1]] = Inr 1" by (simp add: small_ops_def)
  have c: "mask_to small_ops [[Fin 0]] = Inr [[Fin 0]]" by (simp add: small_ops_def)
  have d: "src_mask ((small_model [5])\<lparr>src_mask := Some [[Fin 0]]\<rparr>) = Some [[Fin 0]]" by simp
  have e: "mask_size0 small_ops [[Fin 0]] = Inr 1" by (simp add: small_ops_def)
  from forward_writes_src_mask_only[where T = small_ops and M = list_mask and self = "small_model [5]" and src = "[[1]]"] a b c gen1
  have f: "snd (forward small_ops list_mask (small_model [5]) [[1]]) = (small_model [5])\<lparr>src_mask := Some [[Fin 0]]\<rparr>"
    by blast
  from forward_writes_src_mask_only[where T = small_ops and M = list_mask and self = "(small_model [5])\<lparr>src_mask := Some [[Fin 0]]\<rparr>" and src = "[[1]]"] d e b
  have g: "snd (forward small_ops list_mask ((small_model [5])\<lparr>src_mask := Some [[Fin 0]]\<rparr>) [[1]]) =
     (small_model [5])\<lparr>src_mask := Some [[Fin 0]]\<rparr>"
    by blast
  have h: "(1::int) \<noteq> 2" by simp
  have i: "src_size0 small_ops [[1], [2]] = Inr 2" by (simp add: small_ops_def)
  have j: "mask_to small_ops [[Fin 0, NegInf], [Fin 0, Fin 0]] = Inr [[Fin 0, NegInf], [Fin 0, Fin 0]]"
    by (simp add: small_ops_def)
  from forward_writes_src_mask_only[where T = small_ops and M = list_mask and self = "(small_model [5])\<lparr>src_mask := Some [[Fin 0]]\<rparr>" and src = "[[1], [2]]"] d e h i j gen2
  have "snd (forward small_ops list_mask ((small_model [5])\<lparr>src_mask := Some [[Fin 0]]\<rparr>) [[1], [2]]) =
     (small_model [5])\<lparr>src_mask := Some [[Fin 0]]\<rparr>\<lparr>src_mask := Some [[Fin 0, NegInf], [Fin 0, Fin 0]]\<rparr>"
    by blast
  then have k: "snd (forward small_ops list_mask ((small_model [5])\<lparr>src_mask := Some [[Fin 0]]\<rparr>) [[1], [2]]) =
     (small_model [5])\<lparr>src_mask := Some [[Fin 0, NegInf], [Fin 0, Fin 0]]\<rparr>"
    by simp
  from a b c d e f g gen1 h i j gen2 k show ?thesis by blast
qed

lemma check_fields:
  assumes "check_src_mask T M self src = (r, self1)"
  shows "encoder self1 = encoder self" "ninp self1 = ninp self" "pos_encoder self1 = pos_encoder self"
        "transformer_encoder self1 = transformer_encoder self" "decoder self1 = decoder self"
        "model_type self1 = model_type self"
proof -
  have "self1\<lparr>src_mask := src_mask self\<rparr> = self"
    using check_frame[where T = T and M = M and self = self and src = src] assms by simp
  note e = this
  show "encoder self1 = encoder self" using arg_cong[OF e, of encoder] by simp
  show "ninp self1 = ninp self" using arg_cong[OF e, of ninp] by simp
  show "pos_encoder self1 = pos_encoder self" using arg_cong[OF e, of pos_encoder] by simp
  show "transformer_encoder self1 = transformer_encoder self"
    using arg_cong[OF e, of transformer_encoder] by simp
  show "decoder self1 = decoder self" using arg_cong[OF e, of decoder] by simp
  show "model_type self1 = model_type self" using arg_cong[OF e, of model_type] by simp
qed

text \<open>
  Claim C7, as the code has it. A \<open>TransformerModel\<close> holds a \<open>PositionalEncoding\<close> in its
  field \<open>pos_encoder\<close>, and \<open>TransformerModel.forward\<close> passes the scaled embedding through
  \<open>PositionalEncoding.forward\<close>: the result of \<open>forward\<close> is the framework's transformer
  encoder and decoder applied to what \<open>PositionalEncoding.forward\<close> returns, and its
  exception when it raises.
\<close>

theorem forward_through_positional_encoding:
  assumes "check_src_mask T M self src = (Inr u, self1)" and "encoder self src = Inr src1"
    and "py_math_sqrt T (ninp self) = Inr r" and "scale T src1 r = Inr src2"
  shows "fst (forward T M self src) =
         (case positional_encoding_forward T (pos_encoder self) src2 of
            Inl e \<Rightarrow> Inl e
          | Inr src3 \<Rightarrow>
              (case transformer_encoder self src3 (src_mask self1) of
                 Inl e \<Rightarrow> Inl e
               | Inr output \<Rightarrow> decoder self output))"
  using assms check_fields[OF assms(1)]
  by (simp add: forward_def split: sum.splits)

theorem forward_through_positional_encoding_witness:
  "check_src_mask small_ops list_mask (small_model [5]) [[1]] = (Inr (), (small_model [5])\<lparr>src_mask := Some [[Fin 0]]\<rparr>) \<and>
   encoder (small_model [5]) [[1]] = Inr [1] \<and> py_math_sqrt small_ops (ninp (small_model [5])) = Inr 1 \<and>
   scale small_ops [1] 1 = Inr [1] \<and>
   positional_encoding_forward small_ops (pos_encoder (small_model [5])) [1] = Inr [6] \<and>
   fst (forward small_ops list_mask (small_model [5]) [[1]]) = Inr [6]"
proof -
  have a: "check_src_mask small_ops list_mask (small_model [5]) [[1]] = (Inr (), (small_model [5])\<lparr>src_mask := Some [[Fin 0]]\<rparr>)"
    by (simp add: check_src_mask_def new_src_mask_def small_model_def small_ops_def gen1)
  have b: "encoder (small_model [5]) [[1]] = Inr [1]" by (simp add: small_model_def)
  have c: "py_math_sqrt small_ops (ninp (small_model [5])) = Inr 1"
    by (simp add: small_model_def small_ops_def math_sqrt_def)
  have d: "scale small_ops [1] 1 = Inr [1]" by (simp add: small_ops_def)
  have p: "positional_encoding_forward small_ops (pos_encoder (small_model [5])) [1] = Inr [6]"
    by (simp add: positional_encoding_forward_def small_model_def small_ops_def)
  have "fst (forward small_ops list_mask (small_model [5]) [[1]]) = Inr [6]"
    using forward_through_positional_encoding[OF a b c d]
    by (simp add: p) (simp add: small_model_def)
  with a b c d p show ?thesis by blast
qed

text \<open>
  Claim C7 as stated (\<open>forward\<close> factors through the framework's modules only, not through
  \<open>PositionalEncoding\<close>) fails: two models with the same framework modules, the same
  \<open>ninp\<close> and the same \<open>src_mask\<close>, which differ in the table of their
  \<open>PositionalEncoding\<close> only, give different outputs on the same input.
\<close>

theorem forward_depends_on_positional_encoding:
  "encoder (small_model [5]) = encoder (small_model [7]) \<and>
   transformer_encoder (small_model [5]) = transformer_encoder (small_model [7]) \<and>
   decoder (small_model [5]) = decoder (small_model [7]) \<and>
   dropout (pos_encoder (small_model [5])) = dropout (pos_encoder (small_model [7])) \<and>
   ninp (small_model [5]) = ninp (small_model [7]) \<and>
   src_mask (small_model [5]) = src_mask (small_model [7]) \<and>
   fst (forward small_ops list_mask (small_model [5]) [[1]]) \<noteq> fst (forward small_ops list_mask (small_model [7]) [[1]])"
proof -
  have "forward small_ops list_mask (small_model [7]) [[1]] = (Inr [8], (small_model [7])\<lparr>src_mask := Some [[Fin 0]]\<rparr>)"
    by (simp add: forward_def check_src_mask_def new_src_mask_def small_model_def small_ops_def gen1
       math_sqrt_def positional_encoding_forward_def)
  then show ?thesis by (simp add: fw1) (simp add: small_model_def)
qed

section \<open>The epoch loop\<close>

lemma range1: "py_range 1 bptt = [0]"
  by (simp add: py_range_def bptt_def)

lemma get_batch2: "get_batch list_source [[0], [1]] 0 = Inr ([[0]], [1])"
  by code_simp

lemma list_source_len: "data_len list_source s = Inr (int (length s))"
  "data_size0 list_source s = Inr (int (length s))"
  by (simp_all add: list_source_def)

lemma drift_fields:
  "set_train drift_lib = Inr" "set_eval drift_lib = Inr"
  "call_model drift_lib = (\<lambda>m d. Inr (m, m))" "view_flat drift_lib = (\<lambda>out n. Inr out)"
  "criterion drift_lib = (\<lambda>f tg. Inr f)" "item drift_lib = Inr" "zero_grad drift_lib = Inr"
  "backward drift_lib = (\<lambda>l m. Inr m)" "clip_grad_norm drift_lib = (\<lambda>m c. Inr m)"
  "optimizer_step drift_lib = (\<lambda>p m. Inr (p, m + 1))" "get_lr drift_lib = (\<lambda>p. Inr 5)"
  "scheduler_step drift_lib = Inr" "math_exp drift_lib = (\<lambda>v. Inr (exp v))"
  by (simp_all add: drift_lib_def)

lemma drift_train: "train drift_lib list_source 1 [[0], [1]] (p, m) = Inr (p, m + 1)"
  by (simp add: train_def list_source_len range1 get_batch2 drift_fields)

lemma drift_evaluate: "evaluate drift_lib list_source 1 m [[0], [1]] = Inr (m, m)"
  by (simp add: evaluate_def list_source_len range1 get_batch2 drift_fields)

text \<open>
  Claim C2 says that after the loop \<open>best_model\<close> is the model state that produced the
  best validation loss. The code at a run where the validation loss grows (1, 2, 3 over
  the three epochs): \<open>best_val_loss\<close> is 1, the loss of the first epoch, but \<open>best_model\<close>
  refers to the one model object, which training has changed since, and evaluating it on
  the validation data gives 3, the loss of the last epoch.
\<close>

theorem best_model_is_last_model:
  "\<exists>s. run_epochs drift_lib list_source 1 [[0], [1]] [[0], [1]] () 0 = Inr s \<and>
       best_val_loss s = Fin 1 \<and> best_model s = Some (model s) \<and>
       evaluate_best drift_lib list_source 1 s [[0], [1]] = Inr 3"
  by (simp add: run_epochs_def drift_train drift_evaluate drift_fields evaluate_best_def Let_def)

text \<open>On every run, \<open>best_model\<close> is either untouched or a reference to the object
  that \<open>model\<close> refers to: the loop never makes a second object.\<close>

lemma epoch_loop_alias:
  "epoch_loop L G ntokens train_data val_data es s = Inr s' \<Longrightarrow>
   model s' = model s \<and> (best_model s' = best_model s \<or> best_model s' = Some (model s))"
proof (induction es arbitrary: s)
  case Nil then show ?case by simp
next
  case (Cons epoch rest)
  then show ?case
    by (fastforce simp: Let_def split: sum.splits prod.splits if_splits)
qed

section \<open>The gradient of the autograd example\<close>

text \<open>
  Claim C3, as the code has it. The code of the autograd example determines the printed
  gradient: whatever \<open>torch.randn\<close> draws in the cell between, \<open>print(x.grad)\<close> shows
  the 2-by-2 matrix of 4.5, the value the notebook's text announces.
\<close>

theorem autograd_example_fixed:
  "autograd_example randn g = Some [[9 / 2, 9 / 2], [9 / 2, 9 / 2]]"
  by (simp add: autograd_example_def accumulate_def Let_def split: prod.splits)

text \<open>
  Claim C3 as stated (two runs of the example may print different values of \<open>x.grad\<close>)
  fails: no two states of the random generator give different printed gradients.
\<close>

theorem autograd_example_same_on_every_run:
  "\<not> (\<exists>(randn :: nat \<Rightarrow> real list list \<times> nat) g1 g2.
        autograd_example randn g1 \<noteq> autograd_example randn g2)"
  by (simp add: autograd_example_def accumulate_def Let_def split: prod.splits)

section \<open>Exceptions of the framework pass through\<close>

lemma batchify_propagates:
  "(numericalize data = Inl e \<longrightarrow> batchify B numericalize to_device data bsz = Inl e) \<and>
   (\<forall>data1. numericalize data = Inr data1 \<longrightarrow>
    (tensor_size0 B data1 = Inl e \<longrightarrow> batchify B numericalize to_device data bsz = Inl e) \<and>
    (\<forall>n. tensor_size0 B data1 = Inr n \<longrightarrow>
     (bsz \<noteq> 0 \<longrightarrow>
      (tensor_narrow0 B data1 0 (n div bsz * bsz) = Inl e \<longrightarrow> batchify B numericalize to_device data bsz = Inl e) \<and>
      (\<forall>data2. tensor_narrow0 B data1 0 (n div bsz * bsz) = Inr data2 \<longrightarrow>
       (tensor_view2 B data2 bsz = Inl e \<longrightarrow> batchify B numericalize to_device data bsz = Inl e) \<and>
       (\<forall>data3. tensor_view2 B data2 bsz = Inr data3 \<longrightarrow>
        (tensor_t B data3 = Inl e \<longrightarrow> batchify B numericalize to_device data bsz = Inl e) \<and>
        (\<forall>data4. tensor_t B data3 = Inr data4 \<longrightarrow>
         (tensor_contiguous B data4 = Inl e \<longrightarrow> batchify B numericalize to_device data bsz = Inl e) \<and>
         (\<forall>data5. tensor_contiguous B data4 = Inr data5 \<longrightarrow>
          (to_device data5 = Inl e \<longrightarrow> batchify B numericalize to_device data bsz = Inl e))))))))"
  by (simp add: batchify_def Let_def)

lemma get_batch_propagates:
  "(data_len G source = Inl e \<longrightarrow> get_batch G source i = Inl e) \<and>
   (\<forall>n. data_len G source = Inr n \<longrightarrow>
    (data_slice G source i (i + min bptt (n - 1 - i)) = Inl e \<longrightarrow> get_batch G source i = Inl e) \<and>
    (\<forall>data. data_slice G source i (i + min bptt (n - 1 - i)) = Inr data \<longrightarrow>
     (data_slice G source (i + 1) (i + 1 + min bptt (n - 1 - i)) = Inl e \<longrightarrow> get_batch G source i = Inl e) \<and>
     (\<forall>target0. data_slice G source (i + 1) (i + 1 + min bptt (n - 1 - i)) = Inr target0 \<longrightarrow>
      (data_view1 G target0 = Inl e \<longrightarrow> get_batch G source i = Inl e))))"
  by (simp add: get_batch_def Let_def)

lemma mask_propagates:
  "(mask_ones M sz sz = Inl e \<longrightarrow> generate_square_subsequent_mask M sz = Inl e) \<and>
   (\<forall>o1. mask_ones M sz sz = Inr o1 \<longrightarrow>
    (mask_triu M o1 = Inl e \<longrightarrow> generate_square_subsequent_mask M sz = Inl e) \<and>
    (\<forall>u1. mask_triu M o1 = Inr u1 \<longrightarrow>
     (mask_eq M u1 1 = Inl e \<longrightarrow> generate_square_subsequent_mask M sz = Inl e) \<and>
     (\<forall>b1. mask_eq M u1 1 = Inr b1 \<longrightarrow>
      (mask_transpose M b1 = Inl e \<longrightarrow> generate_square_subsequent_mask M sz = Inl e) \<and>
      (\<forall>m0. mask_transpose M b1 = Inr m0 \<longrightarrow>
       (mask_float M m0 = Inl e \<longrightarrow> generate_square_subsequent_mask M sz = Inl e) \<and>
       (\<forall>f0. mask_float M m0 = Inr f0 \<longrightarrow>
        (mask_eq_bool M m0 0 = Inl e \<longrightarrow> generate_square_subsequent_mask M sz = Inl e) \<and>
        (\<forall>c0. mask_eq_bool M m0 0 = Inr c0 \<longrightarrow>
         (mask_masked_fill M f0 c0 NegInf = Inl e \<longrightarrow> generate_square_subsequent_mask M sz = Inl e) \<and>
         (\<forall>f1. mask_masked_fill M f0 c0 NegInf = Inr f1 \<longrightarrow>
          (mask_eq_bool M m0 1 = Inl e \<longrightarrow> generate_square_subsequent_mask M sz = Inl e) \<and>
          (\<forall>c1. mask_eq_bool M m0 1 = Inr c1 \<longrightarrow>
           (mask_masked_fill M f1 c1 (Fin 0) = Inl e \<longrightarrow> generate_square_subsequent_mask M sz = Inl e)))))))))"
  by (simp add: generate_square_subsequent_mask_def)

lemma positional_encoding_init_propagates:
  "(module_init N = Inl e \<longrightarrow> positional_encoding_init N d_model p max_len = Inl e) \<and>
   (\<forall>u. module_init N = Inr u \<longrightarrow>
    (nn_Dropout N p = Inl e \<longrightarrow> positional_encoding_init N d_model p max_len = Inl e) \<and>
    (\<forall>dr. nn_Dropout N p = Inr dr \<longrightarrow>
     (zeros N max_len d_model = Inl e \<longrightarrow> positional_encoding_init N d_model p max_len = Inl e) \<and>
     (\<forall>pe0. zeros N max_len d_model = Inr pe0 \<longrightarrow>
      (arange_float N 0 max_len = Inl e \<longrightarrow> positional_encoding_init N d_model p max_len = Inl e) \<and>
      (\<forall>a1. arange_float N 0 max_len = Inr a1 \<longrightarrow>
       (unsqueeze N a1 1 = Inl e \<longrightarrow> positional_encoding_init N d_model p max_len = Inl e) \<and>
       (\<forall>position. unsqueeze N a1 1 = Inr position \<longrightarrow>
        (arange_step N 0 d_model 2 = Inl e \<longrightarrow> positional_encoding_init N d_model p max_len = Inl e) \<and>
        (\<forall>a2. arange_step N 0 d_model 2 = Inr a2 \<longrightarrow>
         (to_float N a2 = Inl e \<longrightarrow> positional_encoding_init N d_model p max_len = Inl e) \<and>
         (\<forall>a3. to_float N a2 = Inr a3 \<longrightarrow>
          (d_model \<noteq> 0 \<longrightarrow>
           (mul_float N a3 (- ln 10000 / real_of_int d_model) = Inl e \<longrightarrow> positional_encoding_init N d_model p max_len = Inl e) \<and>
           (\<forall>a4. mul_float N a3 (- ln 10000 / real_of_int d_model) = Inr a4 \<longrightarrow>
            (texp N a4 = Inl e \<longrightarrow> positional_encoding_init N d_model p max_len = Inl e) \<and>
            (\<forall>div_term. texp N a4 = Inr div_term \<longrightarrow>
             (tmul N position div_term = Inl e \<longrightarrow> positional_encoding_init N d_model p max_len = Inl e) \<and>
             (\<forall>a5. tmul N position div_term = Inr a5 \<longrightarrow>
              (tsin N a5 = Inl e \<longrightarrow> positional_encoding_init N d_model p max_len = Inl e) \<and>
              (\<forall>a6. tsin N a5 = Inr a6 \<longrightarrow>
               (set_columns N pe0 0 a6 = Inl e \<longrightarrow> positional_encoding_init N d_model p max_len = Inl e) \<and>
               (\<forall>pe1. set_columns N pe0 0 a6 = Inr pe1 \<longrightarrow>
                (tcos N a5 = Inl e \<longrightarrow> positional_encoding_init N d_model p max_len = Inl e) \<and>
                (\<forall>a8. tcos N a5 = Inr a8 \<longrightarrow>
                 (set_columns N pe1 1 a8 = Inl e \<longrightarrow> positional_encoding_init N d_model p max_len = Inl e) \<and>
                 (\<forall>pe2. set_columns N pe1 1 a8 = Inr pe2 \<longrightarrow>
                  (unsqueeze N pe2 0 = Inl e \<longrightarrow> positional_encoding_init N d_model p max_len = Inl e) \<and>
                  (\<forall>pe3. unsqueeze N pe2 0 = Inr pe3 \<longrightarrow>
                   (transpose01 N pe3 = Inl e \<longrightarrow> positional_encoding_init N d_model p max_len = Inl e) \<and>
                   (\<forall>pe4. transpose01 N pe3 = Inr pe4 \<longrightarrow>
                    (register_buffer N pe4 = Inl e \<longrightarrow> positional_encoding_init N d_model p max_len = Inl e))))))))))))))))))"
  by (simp add: positional_encoding_init_def)

lemma positional_encoding_forward_propagates:
  "(size0 T x0 = Inl e \<longrightarrow> positional_encoding_forward T pos x0 = Inl e) \<and>
   (\<forall>n. size0 T x0 = Inr n \<longrightarrow>
    (slice0 T (pe pos) n = Inl e \<longrightarrow> positional_encoding_forward T pos x0 = Inl e) \<and>
    (\<forall>p. slice0 T (pe pos) n = Inr p \<longrightarrow>
     (tadd T x0 p = Inl e \<longrightarrow> positional_encoding_forward T pos x0 = Inl e) \<and>
     (\<forall>x1. tadd T x0 p = Inr x1 \<longrightarrow>
      (dropout pos x1 = Inl e \<longrightarrow> positional_encoding_forward T pos x0 = Inl e))))"
  by (simp add: positional_encoding_forward_def)

lemma transformer_model_init_propagates:
  "(module_init N = Inl e \<longrightarrow> transformer_model_init N ntoken ninp0 nhead nhid nlayers p = Inl e) \<and>
   (\<forall>u. module_init N = Inr u \<longrightarrow>
    (import_encoder N = Inl e \<longrightarrow> transformer_model_init N ntoken ninp0 nhead nhid nlayers p = Inl e) \<and>
    (\<forall>u1. import_encoder N = Inr u1 \<longrightarrow>
     (positional_encoding_init N ninp0 p 5000 = Inl e \<longrightarrow> transformer_model_init N ntoken ninp0 nhead nhid nlayers p = Inl e) \<and>
     (\<forall>pos. positional_encoding_init N ninp0 p 5000 = Inr pos \<longrightarrow>
      (nn_TransformerEncoderLayer N ninp0 nhead nhid p = Inl e \<longrightarrow> transformer_model_init N ntoken ninp0 nhead nhid nlayers p = Inl e) \<and>
      (\<forall>encoder_layers. nn_TransformerEncoderLayer N ninp0 nhead nhid p = Inr encoder_layers \<longrightarrow>
       (nn_TransformerEncoder N encoder_layers nlayers = Inl e \<longrightarrow> transformer_model_init N ntoken ninp0 nhead nhid nlayers p = Inl e) \<and>
       (\<forall>tenc. nn_TransformerEncoder N encoder_layers nlayers = Inr tenc \<longrightarrow>
        (nn_Embedding N ntoken ninp0 = Inl e \<longrightarrow> transformer_model_init N ntoken ninp0 nhead nhid nlayers p = Inl e) \<and>
        (\<forall>enc. nn_Embedding N ntoken ninp0 = Inr enc \<longrightarrow>
         (nn_Linear N ninp0 ntoken = Inl e \<longrightarrow> transformer_model_init N ntoken ninp0 nhead nhid nlayers p = Inl e) \<and>
         (\<forall>dec. nn_Linear N ninp0 ntoken = Inr dec \<longrightarrow>
          (init_weights N \<lparr>model_type = ''Transformer'', src_mask = None, pos_encoder = pos, transformer_encoder = tenc, encoder = enc, ninp = ninp0, decoder = dec\<rparr> = Inl e \<longrightarrow> transformer_model_init N ntoken ninp0 nhead nhid nlayers p = Inl e))))))))"
  by (simp add: transformer_model_init_def)

lemma init_weights_propagates:
  "(embedding_uniform N (encoder self) (- (1 / 10)) (1 / 10) = Inl e \<longrightarrow> init_weights N self = Inl e) \<and>
   (\<forall>enc. embedding_uniform N (encoder self) (- (1 / 10)) (1 / 10) = Inr enc \<longrightarrow>
    (linear_bias_zero N (decoder self) = Inl e \<longrightarrow> init_weights N self = Inl e) \<and>
    (\<forall>dec0. linear_bias_zero N (decoder self) = Inr dec0 \<longrightarrow>
     (linear_uniform N dec0 (- (1 / 10)) (1 / 10) = Inl e \<longrightarrow> init_weights N self = Inl e)))"
  by (simp add: init_weights_def)

lemma check_src_mask_propagates:
  "(src_mask self = None \<longrightarrow>
    (src_size0 T src = Inl e \<longrightarrow> fst (check_src_mask T M self src) = Inl e) \<and>
    (\<forall>n. src_size0 T src = Inr n \<longrightarrow>
     (generate_square_subsequent_mask M n = Inl e \<longrightarrow> fst (check_src_mask T M self src) = Inl e) \<and>
     (\<forall>m0. generate_square_subsequent_mask M n = Inr m0 \<longrightarrow>
      (mask_to T m0 = Inl e \<longrightarrow> fst (check_src_mask T M self src) = Inl e)))) \<and>
   (\<forall>old. src_mask self = Some old \<longrightarrow>
    (mask_size0 T old = Inl e \<longrightarrow> fst (check_src_mask T M self src) = Inl e) \<and>
    (\<forall>k. mask_size0 T old = Inr k \<longrightarrow>
     (src_size0 T src = Inl e \<longrightarrow> fst (check_src_mask T M self src) = Inl e) \<and>
     (\<forall>n. src_size0 T src = Inr n \<longrightarrow>
      (k \<noteq> n \<longrightarrow>
       (generate_square_subsequent_mask M n = Inl e \<longrightarrow> fst (check_src_mask T M self src) = Inl e) \<and>
       (\<forall>m0. generate_square_subsequent_mask M n = Inr m0 \<longrightarrow>
        (mask_to T m0 = Inl e \<longrightarrow> fst (check_src_mask T M self src) = Inl e))))))"
  by (auto simp: check_src_mask_def new_src_mask_def)

lemma forward_propagates:
  "(fst (check_src_mask T M self src) = Inl e \<longrightarrow> fst (forward T M self src) = Inl e) \<and>
   (\<forall>u. fst (check_src_mask T M self src) = Inr u \<longrightarrow>
    (encoder self src = Inl e \<longrightarrow> fst (forward T M self src) = Inl e) \<and>
    (\<forall>src1. encoder self src = Inr src1 \<longrightarrow>
     (py_math_sqrt T (ninp self) = Inl e \<longrightarrow> fst (forward T M self src) = Inl e) \<and>
     (\<forall>r. py_math_sqrt T (ninp self) = Inr r \<longrightarrow>
      (scale T src1 r = Inl e \<longrightarrow> fst (forward T M self src) = Inl e) \<and>
      (\<forall>src2. scale T src1 r = Inr src2 \<longrightarrow>
       (positional_encoding_forward T (pos_encoder self) src2 = Inl e \<longrightarrow> fst (forward T M self src) = Inl e) \<and>
       (\<forall>src3. positional_encoding_forward T (pos_encoder self) src2 = Inr src3 \<longrightarrow>
        (transformer_encoder self src3 (src_mask (snd (check_src_mask T M self src))) = Inl e \<longrightarrow> fst (forward T M self src) = Inl e) \<and>
        (\<forall>output. transformer_encoder self src3 (src_mask (snd (check_src_mask T M self src))) = Inr output \<longrightarrow>
         (decoder self output = Inl e \<longrightarrow> fst (forward T M self src) = Inl e)))))))"
proof -
  obtain r self1 where c: "check_src_mask T M self src = (r, self1)"
    by (cases "check_src_mask T M self src")
  note f = check_fields[OF c]
  show ?thesis
    by (cases r) (simp_all add: forward_def c f)
qed

lemma evaluate_loop_append:
  "evaluate_loop L G ntokens data_source (xs @ ys) total_loss m =
     (case evaluate_loop L G ntokens data_source xs total_loss m of
        Inl e \<Rightarrow> Inl e
      | Inr (total1, m1) \<Rightarrow> evaluate_loop L G ntokens data_source ys total1 m1)"
proof (induction xs arbitrary: total_loss m)
  case Nil
  show ?case by simp
next
  case (Cons i xs)
  show ?case by (simp add: Cons split: sum.split prod.split)
qed

lemma train_loop_append:
  "train_loop L G ntokens train_data (xs @ ys) total_loss (p, m) =
     (case train_loop L G ntokens train_data xs total_loss (p, m) of
        Inl e \<Rightarrow> Inl e
      | Inr (total1, p1, m1) \<Rightarrow> train_loop L G ntokens train_data ys total1 (p1, m1))"
proof (induction xs arbitrary: total_loss p m)
  case Nil
  show ?case by simp
next
  case (Cons a xs)
  obtain batch i where a: "a = (batch, i)" by (cases a)
  show ?case unfolding a by (simp add: Cons split: sum.split prod.split)
qed

lemma train_propagates:
  "(set_train L m0 = Inl e \<longrightarrow> train L G ntokens train_data (p0, m0) = Inl e) \<and>
   (\<forall>m1. set_train L m0 = Inr m1 \<longrightarrow>
    (data_size0 G train_data = Inl e \<longrightarrow> train L G ntokens train_data (p0, m0) = Inl e) \<and>
    (\<forall>n. data_size0 G train_data = Inr n \<longrightarrow>
     (\<forall>before batch i rest total_loss p m. enumerate 0 (py_range (n - 1) bptt) = before @ (batch, i) # rest \<and>
      train_loop L G ntokens train_data before 0 (p0, m1) = Inr (total_loss, p, m) \<longrightarrow>
      (get_batch G train_data i = Inl e \<longrightarrow> train L G ntokens train_data (p0, m0) = Inl e) \<and>
      (\<forall>data targets. get_batch G train_data i = Inr (data, targets) \<longrightarrow>
       (zero_grad L m = Inl e \<longrightarrow> train L G ntokens train_data (p0, m0) = Inl e) \<and>
       (\<forall>m2. zero_grad L m = Inr m2 \<longrightarrow>
        (call_model L m2 data = Inl e \<longrightarrow> train L G ntokens train_data (p0, m0) = Inl e) \<and>
        (\<forall>output m3. call_model L m2 data = Inr (output, m3) \<longrightarrow>
         (view_flat L output ntokens = Inl e \<longrightarrow> train L G ntokens train_data (p0, m0) = Inl e) \<and>
         (\<forall>flat. view_flat L output ntokens = Inr flat \<longrightarrow>
          (criterion L flat targets = Inl e \<longrightarrow> train L G ntokens train_data (p0, m0) = Inl e) \<and>
          (\<forall>loss. criterion L flat targets = Inr loss \<longrightarrow>
           (backward L loss m3 = Inl e \<longrightarrow> train L G ntokens train_data (p0, m0) = Inl e) \<and>
           (\<forall>m4. backward L loss m3 = Inr m4 \<longrightarrow>
            (clip_grad_norm L m4 (1 / 2) = Inl e \<longrightarrow> train L G ntokens train_data (p0, m0) = Inl e) \<and>
            (\<forall>m5. clip_grad_norm L m4 (1 / 2) = Inr m5 \<longrightarrow>
             (optimizer_step L p m5 = Inl e \<longrightarrow> train L G ntokens train_data (p0, m0) = Inl e) \<and>
             (\<forall>p1 m6. optimizer_step L p m5 = Inr (p1, m6) \<longrightarrow>
              (item L loss = Inl e \<longrightarrow> train L G ntokens train_data (p0, m0) = Inl e) \<and>
              (\<forall>v. item L loss = Inr v \<longrightarrow>
               (batch mod 200 = 0 \<and> 0 < batch \<longrightarrow>
                (data_len G train_data = Inl e \<longrightarrow> train L G ntokens train_data (p0, m0) = Inl e) \<and>
                (\<forall>k. data_len G train_data = Inr k \<longrightarrow>
                 (get_lr L p1 = Inl e \<longrightarrow> train L G ntokens train_data (p0, m0) = Inl e) \<and>
                 (\<forall>lr. get_lr L p1 = Inr lr \<longrightarrow>
                  (math_exp L ((total_loss + v) / 200) = Inl e \<longrightarrow> train L G ntokens train_data (p0, m0) = Inl e))))))))))))))))"
  by (simp add: train_def train_loop_append)

lemma evaluate_propagates:
  "(set_eval L eval_model = Inl e \<longrightarrow> evaluate L G ntokens eval_model data_source = Inl e) \<and>
   (\<forall>m1. set_eval L eval_model = Inr m1 \<longrightarrow>
    (data_size0 G data_source = Inl e \<longrightarrow> evaluate L G ntokens eval_model data_source = Inl e) \<and>
    (\<forall>n. data_size0 G data_source = Inr n \<longrightarrow>
     (\<forall>before i rest total_loss m. py_range (n - 1) bptt = before @ i # rest \<and>
      evaluate_loop L G ntokens data_source before 0 m1 = Inr (total_loss, m) \<longrightarrow>
      (get_batch G data_source i = Inl e \<longrightarrow> evaluate L G ntokens eval_model data_source = Inl e) \<and>
      (\<forall>data targets. get_batch G data_source i = Inr (data, targets) \<longrightarrow>
       (call_model L m data = Inl e \<longrightarrow> evaluate L G ntokens eval_model data_source = Inl e) \<and>
       (\<forall>output m2. call_model L m data = Inr (output, m2) \<longrightarrow>
        (view_flat L output ntokens = Inl e \<longrightarrow> evaluate L G ntokens eval_model data_source = Inl e) \<and>
        (\<forall>output_flat. view_flat L output ntokens = Inr output_flat \<longrightarrow>
         (data_len G data = Inl e \<longrightarrow> evaluate L G ntokens eval_model data_source = Inl e) \<and>
         (\<forall>k. data_len G data = Inr k \<longrightarrow>
          (criterion L output_flat targets = Inl e \<longrightarrow> evaluate L G ntokens eval_model data_source = Inl e) \<and>
          (\<forall>loss. criterion L output_flat targets = Inr loss \<longrightarrow>
           (item L loss = Inl e \<longrightarrow> evaluate L G ntokens eval_model data_source = Inl e))))))) \<and>
     (\<forall>total_loss m. evaluate_loop L G ntokens data_source (py_range (n - 1) bptt) 0 m1 = Inr (total_loss, m) \<longrightarrow>
      (data_len G data_source = Inl e \<longrightarrow> evaluate L G ntokens eval_model data_source = Inl e))))"
  by (simp add: evaluate_def evaluate_loop_append)

text \<open>
  Claim C6. No function of the repository catches, retries or changes an exception: when a
  call into the framework raises \<open>e\<close>, whatever \<open>e\<close> is, the function that made the call
  returns \<open>e\<close>. The statement goes through the functions one by one (\<open>batchify\<close>,
  \<open>get_batch\<close>, the mask generator, \<open>PositionalEncoding.__init__\<close> and \<open>forward\<close>,
  \<open>TransformerModel.__init__\<close>, \<open>init_weights\<close>, the mask check and the body of
  \<open>TransformerModel.forward\<close>, \<open>train\<close>, \<open>evaluate\<close>) and, in each, through its calls in
  the order of the source: a call is reached when the calls before it have returned
  values. A call of one function of the repository by another (\<open>get_batch\<close> by \<open>train\<close>,
  \<open>init_weights\<close> by \<open>__init__\<close>) is a call like the others. For the two loops the call is
  in the iteration \<open>i\<close>, reached after the iterations \<open>before\<close> it.
\<close>

theorem library_errors_propagate:
  "((numericalize data = Inl e \<longrightarrow> batchify B numericalize to_device data bsz = Inl e) \<and>
   (\<forall>data1. numericalize data = Inr data1 \<longrightarrow>
    (tensor_size0 B data1 = Inl e \<longrightarrow> batchify B numericalize to_device data bsz = Inl e) \<and>
    (\<forall>n. tensor_size0 B data1 = Inr n \<longrightarrow>
     (bsz \<noteq> 0 \<longrightarrow>
      (tensor_narrow0 B data1 0 (n div bsz * bsz) = Inl e \<longrightarrow> batchify B numericalize to_device data bsz = Inl e) \<and>
      (\<forall>data2. tensor_narrow0 B data1 0 (n div bsz * bsz) = Inr data2 \<longrightarrow>
       (tensor_view2 B data2 bsz = Inl e \<longrightarrow> batchify B numericalize to_device data bsz = Inl e) \<and>
       (\<forall>data3. tensor_view2 B data2 bsz = Inr data3 \<longrightarrow>
        (tensor_t B data3 = Inl e \<longrightarrow> batchify B numericalize to_device data bsz = Inl e) \<and>
        (\<forall>data4. tensor_t B data3 = Inr data4 \<longrightarrow>
         (tensor_contiguous B data4 = Inl e \<longrightarrow> batchify B numericalize to_device data bsz = Inl e) \<and>
         (\<forall>data5. tensor_contiguous B data4 = Inr data5 \<longrightarrow>
          (to_device data5 = Inl e \<longrightarrow> batchify B numericalize to_device data bsz = Inl e))))))))) \<and>
  ((data_len G source = Inl e \<longrightarrow> get_batch G source i = Inl e) \<and>
   (\<forall>n. data_len G source = Inr n \<longrightarrow>
    (data_slice G source i (i + min bptt (n - 1 - i)) = Inl e \<longrightarrow> get_batch G source i = Inl e) \<and>
    (\<forall>data. data_slice G source i (i + min bptt (n - 1 - i)) = Inr data \<longrightarrow>
     (data_slice G source (i + 1) (i + 1 + min bptt (n - 1 - i)) = Inl e \<longrightarrow> get_batch G source i = Inl e) \<and>
     (\<forall>target0. data_slice G source (i + 1) (i + 1 + min bptt (n - 1 - i)) = Inr target0 \<longrightarrow>
      (data_view1 G target0 = Inl e \<longrightarrow> get_batch G source i = Inl e))))) \<and>
  ((mask_ones M sz sz = Inl e \<longrightarrow> generate_square_subsequent_mask M sz = Inl e) \<and>
   (\<forall>o1. mask_ones M sz sz = Inr o1 \<longrightarrow>
    (mask_triu M o1 = Inl e \<longrightarrow> generate_square_subsequent_mask M sz = Inl e) \<and>
    (\<forall>u1. mask_triu M o1 = Inr u1 \<longrightarrow>
     (mask_eq M u1 1 = Inl e \<longrightarrow> generate_square_subsequent_mask M sz = Inl e) \<and>
     (\<forall>b1. mask_eq M u1 1 = Inr b1 \<longrightarrow>
      (mask_transpose M b1 = Inl e \<longrightarrow> generate_square_subsequent_mask M sz = Inl e) \<and>
      (\<forall>m0. mask_transpose M b1 = Inr m0 \<longrightarrow>
       (mask_float M m0 = Inl e \<longrightarrow> generate_square_subsequent_mask M sz = Inl e) \<and>
       (\<forall>f0. mask_float M m0 = Inr f0 \<longrightarrow>
        (mask_eq_bool M m0 0 = Inl e \<longrightarrow> generate_square_subsequent_mask M sz = Inl e) \<and>
        (\<forall>c0. mask_eq_bool M m0 0 = Inr c0 \<longrightarrow>
         (mask_masked_fill M f0 c0 NegInf = Inl e \<longrightarrow> generate_square_subsequent_mask M sz = Inl e) \<and>
         (\<forall>f1. mask_masked_fill M f0 c0 NegInf = Inr f1 \<longrightarrow>
          (mask_eq_bool M m0 1 = Inl e \<longrightarrow> generate_square_subsequent_mask M sz = Inl e) \<and>
          (\<forall>c1. mask_eq_bool M m0 1 = Inr c1 \<longrightarrow>
           (mask_masked_fill M f1 c1 (Fin 0) = Inl e \<longrightarrow> generate_square_subsequent_mask M sz = Inl e)))))))))) \<and>
  ((module_init N = Inl e \<longrightarrow> positional_encoding_init N d_model p max_len = Inl e) \<and>
   (\<forall>u. module_init N = Inr u \<longrightarrow>
    (nn_Dropout N p = Inl e \<longrightarrow> positional_encoding_init N d_model p max_len = Inl e) \<and>
    (\<forall>dr. nn_Dropout N p = Inr dr \<longrightarrow>
     (zeros N max_len d_model = Inl e \<longrightarrow> positional_encoding_init N d_model p max_len = Inl e) \<and>
     (\<forall>pe0. zeros N max_len d_model = Inr pe0 \<longrightarrow>
      (arange_float N 0 max_len = Inl e \<longrightarrow> positional_encoding_init N d_model p max_len = Inl e) \<and>
      (\<forall>a1. arange_float N 0 max_len = Inr a1 \<longrightarrow>
       (unsqueeze N a1 1 = Inl e \<longrightarrow> positional_encoding_init N d_model p max_len = Inl e) \<and>
       (\<forall>position. unsqueeze N a1 1 = Inr position \<longrightarrow>
        (arange_step N 0 d_model 2 = Inl e \<longrightarrow> positional_encoding_init N d_model p max_len = Inl e) \<and>
        (\<forall>a2. arange_step N 0 d_model 2 = Inr a2 \<longrightarrow>
         (to_float N a2 = Inl e \<longrightarrow> positional_encoding_init N d_model p max_len = Inl e) \<and>
         (\<forall>a3. to_float N a2 = Inr a3 \<longrightarrow>
          (d_model \<noteq> 0 \<longrightarrow>
           (mul_float N a3 (- ln 10000 / real_of_int d_model) = Inl e \<longrightarrow> positional_encoding_init N d_model p max_len = Inl e) \<and>
           (\<forall>a4. mul_float N a3 (- ln 10000 / real_of_int d_model) = Inr a4 \<longrightarrow>
            (texp N a4 = Inl e \<longrightarrow> positional_encoding_init N d_model p max_len = Inl e) \<and>
            (\<forall>div_term. texp N a4 = Inr div_term \<longrightarrow>
             (tmul N position div_term = Inl e \<longrightarrow> positional_encoding_init N d_model p max_len = Inl e) \<and>
             (\<forall>a5. tmul N position div_term = Inr a5 \<longrightarrow>
              (tsin N a5 = Inl e \<longrightarrow> positional_encoding_init N d_model p max_len = Inl e) \<and>
              (\<forall>a6. tsin N a5 = Inr a6 \<longrightarrow>
               (set_columns N pe0 0 a6 = Inl e \<longrightarrow> positional_encoding_init N d_model p max_len = Inl e) \<and>
               (\<forall>pe1. set_columns N pe0 0 a6 = Inr pe1 \<longrightarrow>
                (tcos N a5 = Inl e \<longrightarrow> positional_encoding_init N d_model p max_len = Inl e) \<and>
                (\<forall>a8. tcos N a5 = Inr a8 \<longrightarrow>
                 (set_columns N pe1 1 a8 = Inl e \<longrightarrow> positional_encoding_init N d_model p max_len = Inl e) \<and>
                 (\<forall>pe2. set_columns N pe1 1 a8 = Inr pe2 \<longrightarrow>
                  (unsqueeze N pe2 0 = Inl e \<longrightarrow> positional_encoding_init N d_model p max_len = Inl e) \<and>
                  (\<forall>pe3. unsqueeze N pe2 0 = Inr pe3 \<longrightarrow>
                   (transpose01 N pe3 = Inl e \<longrightarrow> positional_encoding_init N d_model p max_len = Inl e) \<and>
                   (\<forall>pe4. transpose01 N pe3 = Inr pe4 \<longrightarrow>
                    (register_buffer N pe4 = Inl e \<longrightarrow> positional_encoding_init N d_model p max_len = Inl e))))))))))))))))))) \<and>
  ((size0 T x0 = Inl e \<longrightarrow> positional_encoding_forward T pos x0 = Inl e) \<and>
   (\<forall>n. size0 T x0 = Inr n \<longrightarrow>
    (slice0 T (pe pos) n = Inl e \<longrightarrow> positional_encoding_forward T pos x0 = Inl e) \<and>
    (\<forall>p. slice0 T (pe pos) n = Inr p \<longrightarrow>
     (tadd T x0 p = Inl e \<longrightarrow> positional_encoding_forward T pos x0 = Inl e) \<and>
     (\<forall>x1. tadd T x0 p = Inr x1 \<longrightarrow>
      (dropout pos x1 = Inl e \<longrightarrow> positional_encoding_forward T pos x0 = Inl e))))) \<and>
  ((module_init N = Inl e \<longrightarrow> transformer_model_init N ntoken ninp0 nhead nhid nlayers p = Inl e) \<and>
   (\<forall>u. module_init N = Inr u \<longrightarrow>
    (import_encoder N = Inl e \<longrightarrow> transformer_model_init N ntoken ninp0 nhead nhid nlayers p = Inl e) \<and>
    (\<forall>u1. import_encoder N = Inr u1 \<longrightarrow>
     (positional_encoding_init N ninp0 p 5000 = Inl e \<longrightarrow> transformer_model_init N ntoken ninp0 nhead nhid nlayers p = Inl e) \<and>
     (\<forall>pos. positional_encoding_init N ninp0 p 5000 = Inr pos \<longrightarrow>
      (nn_TransformerEncoderLayer N ninp0 nhead nhid p = Inl e \<longrightarrow> transformer_model_init N ntoken ninp0 nhead nhid nlayers p = Inl e) \<and>
      (\<forall>encoder_layers. nn_TransformerEncoderLayer N ninp0 nhead nhid p = Inr encoder_layers \<longrightarrow>
       (nn_TransformerEncoder N encoder_layers nlayers = Inl e \<longrightarrow> transformer_model_init N ntoken ninp0 nhead nhid nlayers p = Inl e) \<and>
       (\<forall>tenc. nn_TransformerEncoder N encoder_layers nlayers = Inr tenc \<longrightarrow>
        (nn_Embedding N ntoken ninp0 = Inl e \<longrightarrow> transformer_model_init N ntoken ninp0 nhead nhid nlayers p = Inl e) \<and>
        (\<forall>enc. nn_Embedding N ntoken ninp0 = Inr enc \<longrightarrow>
         (nn_Linear N ninp0 ntoken = Inl e \<longrightarrow> transformer_model_init N ntoken ninp0 nhead nhid nlayers p = Inl e) \<and>
         (\<forall>dec. nn_Linear N ninp0 ntoken = Inr dec \<longrightarrow>
          (init_weights N \<lparr>model_type = ''Transformer'', src_mask = None, pos_encoder = pos, transformer_encoder = tenc, encoder = enc, ninp = ninp0, decoder = dec\<rparr> = Inl e \<longrightarrow> transformer_model_init N ntoken ninp0 nhead nhid nlayers p = Inl e))))))))) \<and>
  ((embedding_uniform N (encoder self) (- (1 / 10)) (1 / 10) = Inl e \<longrightarrow> init_weights N self = Inl e) \<and>
   (\<forall>enc. embedding_uniform N (encoder self) (- (1 / 10)) (1 / 10) = Inr enc \<longrightarrow>
    (linear_bias_zero N (decoder self) = Inl e \<longrightarrow> init_weights N self = Inl e) \<and>
    (\<forall>dec0. linear_bias_zero N (decoder self) = Inr dec0 \<longrightarrow>
     (linear_uniform N dec0 (- (1 / 10)) (1 / 10) = Inl e \<longrightarrow> init_weights N self = Inl e)))) \<and>
  ((src_mask self = None \<longrightarrow>
    (src_size0 T src = Inl e \<longrightarrow> fst (check_src_mask T M self src) = Inl e) \<and>
    (\<forall>n. src_size0 T src = Inr n \<longrightarrow>
     (generate_square_subsequent_mask M n = Inl e \<longrightarrow> fst (check_src_mask T M self src) = Inl e) \<and>
     (\<forall>m0. generate_square_subsequent_mask M n = Inr m0 \<longrightarrow>
      (mask_to T m0 = Inl e \<longrightarrow> fst (check_src_mask T M self src) = Inl e)))) \<and>
   (\<forall>old. src_mask self = Some old \<longrightarrow>
    (mask_size0 T old = Inl e \<longrightarrow> fst (check_src_mask T M self src) = Inl e) \<and>
    (\<forall>k. mask_size0 T old = Inr k \<longrightarrow>
     (src_size0 T src = Inl e \<longrightarrow> fst (check_src_mask T M self src) = Inl e) \<and>
     (\<forall>n. src_size0 T src = Inr n \<longrightarrow>
      (k \<noteq> n \<longrightarrow>
       (generate_square_subsequent_mask M n = Inl e \<longrightarrow> fst (check_src_mask T M self src) = Inl e) \<and>
       (\<forall>m0. generate_square_subsequent_mask M n = Inr m0 \<longrightarrow>
        (mask_to T m0 = Inl e \<longrightarrow> fst (check_src_mask T M self src) = Inl e))))))) \<and>
  ((fst (check_src_mask T M self src) = Inl e \<longrightarrow> fst (forward T M self src) = Inl e) \<and>
   (\<forall>u. fst (check_src_mask T M self src) = Inr u \<longrightarrow>
    (encoder self src = Inl e \<longrightarrow> fst (forward T M self src) = Inl e) \<and>
    (\<forall>src1. encoder self src = Inr src1 \<longrightarrow>
     (py_math_sqrt T (ninp self) = Inl e \<longrightarrow> fst (forward T M self src) = Inl e) \<and>
     (\<forall>r. py_math_sqrt T (ninp self) = Inr r \<longrightarrow>
      (scale T src1 r = Inl e \<longrightarrow> fst (forward T M self src) = Inl e) \<and>
      (\<forall>src2. scale T src1 r = Inr src2 \<longrightarrow>
       (positional_encoding_forward T (pos_encoder self) src2 = Inl e \<longrightarrow> fst (forward T M self src) = Inl e) \<and>
       (\<forall>src3. positional_encoding_forward T (pos_encoder self) src2 = Inr src3 \<longrightarrow>
        (transformer_encoder self src3 (src_mask (snd (check_src_mask T M self src))) = Inl e \<longrightarrow> fst (forward T M self src) = Inl e) \<and>
        (\<forall>output. transformer_encoder self src3 (src_mask (snd (check_src_mask T M self src))) = Inr output \<longrightarrow>
         (decoder self output = Inl e \<longrightarrow> fst (forward T M self src) = Inl e)))))))) \<and>
  ((set_train L m0 = Inl e \<longrightarrow> train L G ntokens train_data (p0, m0) = Inl e) \<and>
   (\<forall>m1. set_train L m0 = Inr m1 \<longrightarrow>
    (data_size0 G train_data = Inl e \<longrightarrow> train L G ntokens train_data (p0, m0) = Inl e) \<and>
    (\<forall>n. data_size0 G train_data = Inr n \<longrightarrow>
     (\<forall>before batch i rest total_loss p m. enumerate 0 (py_range (n - 1) bptt) = before @ (batch, i) # rest \<and>
      train_loop L G ntokens train_data before 0 (p0, m1) = Inr (total_loss, p, m) \<longrightarrow>
      (get_batch G train_data i = Inl e \<longrightarrow> train L G ntokens train_data (p0, m0) = Inl e) \<and>
      (\<forall>data targets. get_batch G train_data i = Inr (data, targets) \<longrightarrow>
       (zero_grad L m = Inl e \<longrightarrow> train L G ntokens train_data (p0, m0) = Inl e) \<and>
       (\<forall>m2. zero_grad L m = Inr m2 \<longrightarrow>
        (call_model L m2 data = Inl e \<longrightarrow> train L G ntokens train_data (p0, m0) = Inl e) \<and>
        (\<forall>output m3. call_model L m2 data = Inr (output, m3) \<longrightarrow>
         (view_flat L output ntokens = Inl e \<longrightarrow> train L G ntokens train_data (p0, m0) = Inl e) \<and>
         (\<forall>flat. view_flat L output ntokens = Inr flat \<longrightarrow>
          (criterion L flat targets = Inl e \<longrightarrow> train L G ntokens train_data (p0, m0) = Inl e) \<and>
          (\<forall>loss. criterion L flat targets = Inr loss \<longrightarrow>
           (backward L loss m3 = Inl e \<longrightarrow> train L G ntokens train_data (p0, m0) = Inl e) \<and>
           (\<forall>m4. backward L loss m3 = Inr m4 \<longrightarrow>
            (clip_grad_norm L m4 (1 / 2) = Inl e \<longrightarrow> train L G ntokens train_data (p0, m0) = Inl e) \<and>
            (\<forall>m5. clip_grad_norm L m4 (1 / 2) = Inr m5 \<longrightarrow>
             (optimizer_step L p m5 = Inl e \<longrightarrow> train L G ntokens train_data (p0, m0) = Inl e) \<and>
             (\<forall>p1 m6. optimizer_step L p m5 = Inr (p1, m6) \<longrightarrow>
              (item L loss = Inl e \<longrightarrow> train L G ntokens train_data (p0, m0) = Inl e) \<and>
              (\<forall>v. item L loss = Inr v \<longrightarrow>
               (batch mod 200 = 0 \<and> 0 < batch \<longrightarrow>
                (data_len G train_data = Inl e \<longrightarrow> train L G ntokens train_data (p0, m0) = Inl e) \<and>
                (\<forall>k. data_len G train_data = Inr k \<longrightarrow>
                 (get_lr L p1 = Inl e \<longrightarrow> train L G ntokens train_data (p0, m0) = Inl e) \<and>
                 (\<forall>lr. get_lr L p1 = Inr lr \<longrightarrow>
                  (math_exp L ((total_loss + v) / 200) = Inl e \<longrightarrow> train L G ntokens train_data (p0, m0) = Inl e))))))))))))))))) \<and>
  ((set_eval L eval_model = Inl e \<longrightarrow> evaluate L G ntokens eval_model data_source = Inl e) \<and>
   (\<forall>m1. set_eval L eval_model = Inr m1 \<longrightarrow>
    (data_size0 G data_source = Inl e \<longrightarrow> evaluate L G ntokens eval_model data_source = Inl e) \<and>
    (\<forall>n. data_size0 G data_source = Inr n \<longrightarrow>
     (\<forall>before i rest total_loss m. py_range (n - 1) bptt = before @ i # rest \<and>
      evaluate_loop L G ntokens data_source before 0 m1 = Inr (total_loss, m) \<longrightarrow>
      (get_batch G data_source i = Inl e \<longrightarrow> evaluate L G ntokens eval_model data_source = Inl e) \<and>
      (\<forall>data targets. get_batch G data_source i = Inr (data, targets) \<longrightarrow>
       (call_model L m data = Inl e \<longrightarrow> evaluate L G ntokens eval_model data_source = Inl e) \<and>
       (\<forall>output m2. call_model L m data = Inr (output, m2) \<longrightarrow>
        (view_flat L output ntokens = Inl e \<longrightarrow> evaluate L G ntokens eval_model data_source = Inl e) \<and>
        (\<forall>output_flat. view_flat L output ntokens = Inr output_flat \<longrightarrow>
         (data_len G data = Inl e \<longrightarrow> evaluate L G ntokens eval_model data_source = Inl e) \<and>
         (\<forall>k. data_len G data = Inr k \<longrightarrow>
          (criterion L output_flat targets = Inl e \<longrightarrow> evaluate L G ntokens eval_model data_source = Inl e) \<and>
          (\<forall>loss. criterion L output_flat targets = Inr loss \<longrightarrow>
           (item L loss = Inl e \<longrightarrow> evaluate L G ntokens eval_model data_source = Inl e))))))) \<and>
     (\<forall>total_loss m. evaluate_loop L G ntokens data_source (py_range (n - 1) bptt) 0 m1 = Inr (total_loss, m) \<longrightarrow>
      (data_len G data_source = Inl e \<longrightarrow> evaluate L G ntokens eval_model data_source = Inl e)))))"
  by (rule conjI[OF batchify_propagates conjI[OF get_batch_propagates conjI[OF mask_propagates conjI[OF positional_encoding_init_propagates conjI[OF positional_encoding_forward_propagates conjI[OF transformer_model_init_propagates conjI[OF init_weights_propagates conjI[OF check_src_mask_propagates conjI[OF forward_propagates conjI[OF train_propagates evaluate_propagates]]]]]]]]]])

theorem library_errors_propagate_witness:
  "(\<lambda>d. Inr d) [1, 2, 3, 4, 5 :: int] = (Inr [1, 2, 3, 4, 5] :: error + int list) \<and>
   tensor_size0 list_tensor [1, 2, 3, 4, 5 :: int] = Inr 5 \<and> (- 2 :: int) \<noteq> 0 \<and>
   tensor_narrow0 list_tensor [1, 2, 3, 4, 5 :: int] 0 (5 div (- 2) * (- 2)) = Inl RuntimeError \<and>
   batchify list_tensor (\<lambda>d. Inr d) Inr [1, 2, 3, 4, 5 :: int] (- 2) = Inl RuntimeError \<and>
   data_len (list_source\<lparr>data_view1 := (\<lambda>s. Inl (LibraryError 3))\<rparr>) [[0], [1]] = Inr 2 \<and>
   data_slice (list_source\<lparr>data_view1 := (\<lambda>s. Inl (LibraryError 3))\<rparr>) [[0], [1]] 0 (0 + min bptt (2 - 1 - 0)) =
     Inr [[0]] \<and>
   data_slice (list_source\<lparr>data_view1 := (\<lambda>s. Inl (LibraryError 3))\<rparr>) [[0], [1]] (0 + 1)
       (0 + 1 + min bptt (2 - 1 - 0)) = Inr [[1]] \<and>
   data_view1 (list_source\<lparr>data_view1 := (\<lambda>s. Inl (LibraryError 3))\<rparr>) [[1]] = Inl (LibraryError 3) \<and>
   get_batch (list_source\<lparr>data_view1 := (\<lambda>s. Inl (LibraryError 3))\<rparr>) [[0], [1]] 0 = Inl (LibraryError 3) \<and>
   fst (check_src_mask small_ops list_mask ((small_model [5])\<lparr>encoder := (\<lambda>s. Inl (LibraryError 7))\<rparr>) [[1]]) = Inr () \<and>
   encoder ((small_model [5])\<lparr>encoder := (\<lambda>s. Inl (LibraryError 7))\<rparr>) [[1]] = Inl (LibraryError 7) \<and>
   fst (forward small_ops list_mask ((small_model [5])\<lparr>encoder := (\<lambda>s. Inl (LibraryError 7))\<rparr>) [[1]]) =
     Inl (LibraryError 7)"
proof -
  have a: "(\<lambda>d. Inr d) [1, 2, 3, 4, 5 :: int] = (Inr [1, 2, 3, 4, 5] :: error + int list)" by simp
  have a1: "tensor_size0 list_tensor [1, 2, 3, 4, 5 :: int] = Inr 5" by (simp add: list_tensor_def)
  have b: "(- 2 :: int) \<noteq> 0" by simp
  have c: "tensor_narrow0 list_tensor [1, 2, 3, 4, 5 :: int] 0 (5 div (- 2) * (- 2)) = Inl RuntimeError"
    by (simp add: list_tensor_def narrow_def)
  from library_errors_propagate[where B = list_tensor and numericalize = "\<lambda>d. Inr d"
      and data = "[1, 2, 3, 4, 5 :: int]" and bsz = "- 2" and e = RuntimeError and to_device = Inr,
      THEN conjunct1] a a1 b c
  have r1: "batchify list_tensor (\<lambda>d. Inr d) Inr [1, 2, 3, 4, 5 :: int] (- 2) = Inl RuntimeError"
    by blast
  define G where "G = list_source\<lparr>data_view1 := (\<lambda>s. Inl (LibraryError 3))\<rparr>"
  have g1: "data_len G [[0], [1]] = Inr 2" by (simp add: G_def list_source_def)
  have g2: "data_slice G [[0], [1]] 0 (0 + min bptt (2 - 1 - 0)) = Inr [[0]]"
    by (simp add: G_def list_source_def bptt_def py_slice_def)
  have g3: "data_slice G [[0], [1]] (0 + 1) (0 + 1 + min bptt (2 - 1 - 0)) = Inr [[1]]"
    by (simp add: G_def list_source_def bptt_def py_slice_def)
  have g4: "data_view1 G [[1]] = Inl (LibraryError 3)" by (simp add: G_def)
  from library_errors_propagate[where G = G and source = "[[0], [1]]" and i = 0
      and e = "LibraryError 3", THEN conjunct2, THEN conjunct1] g1 g2 g3 g4
  have r3: "get_batch G [[0], [1]] 0 = Inl (LibraryError 3)" by blast
  have f: "fst (check_src_mask small_ops list_mask ((small_model [5])\<lparr>encoder := (\<lambda>s. Inl (LibraryError 7))\<rparr>) [[1]]) = Inr ()"
    by (simp add: check_src_mask_def new_src_mask_def small_model_def small_ops_def gen1)
  have g: "encoder ((small_model [5])\<lparr>encoder := (\<lambda>s. Inl (LibraryError 7))\<rparr>) [[1]] = Inl (LibraryError 7)"
    by simp
  from library_errors_propagate[where T = small_ops and M = list_mask
      and self = "(small_model [5])\<lparr>encoder := (\<lambda>s. Inl (LibraryError 7))\<rparr>"
      and src = "[[1]]" and e = "LibraryError 7",
      THEN conjunct2, THEN conjunct2, THEN conjunct2, THEN conjunct2, THEN conjunct2, THEN conjunct2, THEN conjunct2, THEN conjunct2, THEN conjunct1] f g
  have r2: "fst (forward small_ops list_mask ((small_model [5])\<lparr>encoder := (\<lambda>s. Inl (LibraryError 7))\<rparr>) [[1]]) =
     Inl (LibraryError 7)" by blast
  from a a1 b c r1 g1 g2 g3 g4 r3 f g r2 show ?thesis unfolding G_def by blast
qed

end
